theory Spec2Isabelle
  imports Main "HOL-Library.Word" "HOL-Library.Signed_Division"
begin

section \<open>Liveness watchdog\<close>

text \<open>
  \<^verbatim>\<open>ConnectionWatchdog\<close> is the same class in \<^verbatim>\<open>MyoSensor/main.cpp\<close> and in
  \<^verbatim>\<open>MyoSensor/MyoLinux/src/main.cpp\<close>. A \<^verbatim>\<open>std::chrono::seconds\<close> value is its signed
  count of seconds; a \<^verbatim>\<open>steady_clock::time_point\<close> is its signed count of clock ticks.
  The tick of \<^verbatim>\<open>std::chrono::steady_clock\<close> is one nanosecond (libstdc++ and libc++).
  Every member function that calls \<^verbatim>\<open>steady_clock::now()\<close> takes the reading as its
  argument \<open>now\<close>.
\<close>

record ConnectionWatchdog =
  timeout :: int
  last_activity :: int

definition steady_clock_ticks_per_second :: int where
  "steady_clock_ticks_per_second = 1000000000"

text \<open>\<^verbatim>\<open>duration_cast<seconds>\<close> of a tick count: integer division, truncating towards zero.\<close>

definition duration_cast_seconds :: "int \<Rightarrow> int" where
  "duration_cast_seconds d = d sdiv steady_clock_ticks_per_second"

definition ConnectionWatchdog_new :: "int \<Rightarrow> int \<Rightarrow> ConnectionWatchdog" where
  "ConnectionWatchdog_new t now = \<lparr>timeout = t, last_activity = now\<rparr>"

definition update :: "ConnectionWatchdog \<Rightarrow> int \<Rightarrow> ConnectionWatchdog" where
  "update wd now = wd\<lparr>last_activity := now\<rparr>"

definition is_timeout :: "ConnectionWatchdog \<Rightarrow> int \<Rightarrow> bool" where
  "is_timeout wd now \<longleftrightarrow> duration_cast_seconds (now - last_activity wd) > timeout wd"


section \<open>Exceptions\<close>

text \<open>
  The programs throw and catch by \<^verbatim>\<open>const std::exception&\<close>. An exception is one of
  the standard classes the code meets, with the text \<^verbatim>\<open>what()\<close> returns; a function
  that can throw returns \<open>exception + 'a\<close>, with \<open>Inl\<close> for the exception thrown.
\<close>

datatype exception =
    runtime_error string
  | invalid_argument string
  | out_of_range string

fun what :: "exception \<Rightarrow> string" where
  "what (runtime_error m) = m"
| "what (invalid_argument m) = m"
| "what (out_of_range m) = m"

section \<open>Parsing the device address (MyoLinux/src/main.cpp)\<close>

type_synonym byte = "8 word"

text \<open>
  The \<^verbatim>\<open>std::istringstream\<close> over the argument: the characters not yet read and the
  two state bits that \<^verbatim>\<open>std::getline\<close> sets and that \<^verbatim>\<open>operator!\<close> reads.
\<close>

record istringstream =
  buf :: string
  eofbit :: bool
  failbit :: bool

definition istringstream_new :: "string \<Rightarrow> istringstream" where
  "istringstream_new s = \<lparr>buf = s, eofbit = False, failbit = False\<rparr>"

text \<open>
  \<^verbatim>\<open>std::getline(ss, str, delim)\<close>: on a stream that is not good the sentry sets
  \<^verbatim>\<open>failbit\<close> and \<open>str\<close> is left alone. Otherwise the characters up to the delimiter
  are moved into \<open>str\<close> and the delimiter is dropped; reaching the end of the buffer sets
  \<^verbatim>\<open>eofbit\<close>, and \<^verbatim>\<open>failbit\<close> too when nothing at all was extracted.
\<close>

definition getline :: "istringstream \<Rightarrow> string \<Rightarrow> char \<Rightarrow> istringstream \<times> string" where
  "getline ss str delim =
     (if eofbit ss \<or> failbit ss then (ss\<lparr>failbit := True\<rparr>, str)
      else (case dropWhile (\<lambda>c. c \<noteq> delim) (buf ss) of
              [] \<Rightarrow> (ss\<lparr>buf := [], eofbit := True, failbit := (buf ss = [])\<rparr>, buf ss)
            | d # rest \<Rightarrow> (ss\<lparr>buf := rest\<rparr>, takeWhile (\<lambda>c. c \<noteq> delim) (buf ss))))"

text \<open>\<^verbatim>\<open>isspace\<close> in the C locale: space and the controls \<^verbatim>\<open>\t \n \v \f \r\<close>.\<close>

definition isspace :: "char \<Rightarrow> bool" where
  "isspace c \<longleftrightarrow> (of_char c :: nat) = 32 \<or> (9 \<le> (of_char c :: nat) \<and> (of_char c :: nat) \<le> 13)"

definition hex_digit :: "char \<Rightarrow> nat option" where
  "hex_digit c =
     (let n = (of_char c :: nat) in
      if 48 \<le> n \<and> n \<le> 57 then Some (n - 48)
      else if 97 \<le> n \<and> n \<le> 102 then Some (n - 87)
      else if 65 \<le> n \<and> n \<le> 70 then Some (n - 55)
      else None)"

text \<open>The digit loop of \<^verbatim>\<open>strtol\<close>: it stops at the first character that is no digit.\<close>

fun digits16 :: "nat \<Rightarrow> string \<Rightarrow> nat" where
  "digits16 acc [] = acc"
| "digits16 acc (c # cs) =
     (case hex_digit c of None \<Rightarrow> acc | Some d \<Rightarrow> digits16 (16 * acc + d) cs)"

text \<open>
  \<^verbatim>\<open>strtol(str, &end, 16)\<close> as \<^verbatim>\<open>std::stoi\<close> uses it: leading white space, an
  optional sign, an optional \<^verbatim>\<open>0x\<close> or \<^verbatim>\<open>0X\<close> when a digit follows it, then the
  digits. The value is the mathematical one; \<open>None\<close> means that no conversion was
  performed (\<^verbatim>\<open>end == str\<close>).
\<close>

definition strtol16 :: "string \<Rightarrow> int option" where
  "strtol16 s =
     (let s1 = dropWhile isspace s;
          neg = (case s1 of [] \<Rightarrow> False | c # cs \<Rightarrow> c = CHR ''-'');
          s2 = (case s1 of [] \<Rightarrow> []
                | c # cs \<Rightarrow> if c = CHR ''-'' \<or> c = CHR ''+'' then cs else s1);
          s3 = (case s2 of
                  z # x # h # cs \<Rightarrow>
                    if z = CHR ''0'' \<and> (x = CHR ''x'' \<or> x = CHR ''X'') \<and> hex_digit h \<noteq> None
                    then h # cs else s2
                | _ \<Rightarrow> s2)
      in case s3 of
           [] \<Rightarrow> None
         | c # cs \<Rightarrow>
             if hex_digit c = None then None
             else Some ((if neg then - 1 else 1) * int (digits16 0 s3)))"

definition INT_MIN :: int where "INT_MIN = - 2147483648"
definition INT_MAX :: int where "INT_MAX = 2147483647"

text \<open>
  \<^verbatim>\<open>std::stoi(str, nullptr, 16)\<close>: \<^verbatim>\<open>std::invalid_argument\<close> when no conversion was
  performed, \<^verbatim>\<open>std::out_of_range\<close> when the value does not fit an \<^verbatim>\<open>int\<close> (a value
  beyond \<^verbatim>\<open>long\<close>, which \<^verbatim>\<open>strtol\<close> reports by \<^verbatim>\<open>ERANGE\<close>, is beyond \<^verbatim>\<open>int\<close> too).
\<close>

definition stoi :: "string \<Rightarrow> exception + int" where
  "stoi str =
     (case strtol16 str of
        None \<Rightarrow> Inl (invalid_argument ''stoi'')
      | Some v \<Rightarrow> if v < INT_MIN \<or> INT_MAX < v then Inl (out_of_range ''stoi'') else Inr v)"

text \<open>
  The loop of \<^verbatim>\<open>parse_mac_address\<close>. \<open>address\<close> is the \<^verbatim>\<open>std::array<unsigned char, 6>\<close>;
  \<^verbatim>\<open>static_cast<unsigned char>\<close> keeps the low eight bits of the \<^verbatim>\<open>int\<close>.
\<close>

function parse_mac_address_loop ::
  "nat \<Rightarrow> istringstream \<Rightarrow> string \<Rightarrow> byte list \<Rightarrow> exception + byte list" where
  "parse_mac_address_loop i ss octet address =
     (if i < 6 then
        (case getline ss octet CHR '':'' of
           (ss', octet') \<Rightarrow>
             if failbit ss' then Inl (runtime_error ''Invalid MAC address format'')
             else (case stoi octet' of
                     Inl e \<Rightarrow> Inl e
                   | Inr v \<Rightarrow>
                       parse_mac_address_loop (i + 1) ss' octet' (address[i := word_of_int v])))
      else Inr address)"
  by pat_completeness auto
termination
  by (relation "measure (\<lambda>(i, ss, octet, address). 6 - i)") auto

declare parse_mac_address_loop.simps [simp del]

text \<open>
  The array is declared without an initialiser; each of its six slots is assigned before
  the function returns, so the initial content (here zeros) never shows.
\<close>

definition parse_mac_address :: "string \<Rightarrow> exception + byte list" where
  "parse_mac_address mac_str =
     parse_mac_address_loop 0 (istringstream_new mac_str) [] (replicate 6 0)"

text \<open>
  Six colon-separated octets, for the statements about the parser: the fields joined by
  colons, and the value of a field of hexadecimal digits.
\<close>

fun colon_join :: "string list \<Rightarrow> string" where
  "colon_join [] = []"
| "colon_join [x] = x"
| "colon_join (x # y # zs) = x @ CHR '':'' # colon_join (y # zs)"

definition is_hex :: "char \<Rightarrow> bool" where
  "is_hex c \<longleftrightarrow> c \<in> set ''0123456789abcdefABCDEF''"

definition hex_char_value :: "char \<Rightarrow> nat" where
  "hex_char_value c =
     (if c \<in> set ''0123456789'' then of_char c - of_char CHR ''0''
      else if c \<in> set ''abcdef'' then of_char c - of_char CHR ''a'' + 10
      else of_char c - of_char CHR ''A'' + 10)"

definition octet_value :: "string \<Rightarrow> nat" where
  "octet_value s = foldl (\<lambda>a c. 16 * a + hex_char_value c) 0 s"

definition hex_octet :: "string \<Rightarrow> bool" where
  "hex_octet s \<longleftrightarrow> s \<noteq> [] \<and> length s \<le> 2 \<and> list_all is_hex s"

text \<open>The colon-separated fields of a string: every string is the join of its fields.\<close>

fun colon_split :: "string \<Rightarrow> string list" where
  "colon_split [] = [[]]"
| "colon_split (c # cs) =
     (if c = CHR '':'' then [] # colon_split cs
      else (case colon_split cs of [] \<Rightarrow> [[c]] | f # fs \<Rightarrow> (c # f) # fs))"


section \<open>The environment: device session, clocks, files and the interrupt signal\<close>

text \<open>
  Modelled from the spec: the device session \<^verbatim>\<open>myo::Client\<close> of \<^verbatim>\<open>myoclient.h\<close> is not
  among the sources. The spec gives its interface (\<^verbatim>\<open>connect\<close>, \<^verbatim>\<open>disconnect\<close>,
  \<^verbatim>\<open>connected\<close>, \<^verbatim>\<open>listen\<close>, \<^verbatim>\<open>setSleepMode\<close>, \<^verbatim>\<open>setMode\<close>, \<^verbatim>\<open>onEmg\<close>, \<^verbatim>\<open>onImu\<close>) and
  says that every call may raise on transport failure. The enumerations below hold the
  values the programs name, next to the others of the header.
\<close>

datatype SleepMode = Normal | NeverSleep
datatype EmgMode = EmgNone | SendEmg | SendEmgRaw
datatype ImuMode = ImuNone | SendData | SendEvents | SendAll | SendRaw
datatype ClassifierMode = Disabled | Enabled

text \<open>The calls the programs make on the session, and how a call ended.\<close>

datatype call =
    CConnected
  | CConnect "byte list" int
  | CConnectDefault
  | CDisconnect
  | CSetSleepMode SleepMode
  | CSetMode EmgMode ImuMode ClassifierMode
  | COnEmg
  | COnImu
  | CListen

datatype outcome = Returned | Threw exception

text \<open>
  What a run does to the outside, in order: a line logged (\<^verbatim>\<open>log_message\<close> prints a
  local time stamp, \<^verbatim>\<open>" - "\<close> and the message; the event keeps the message), a sleep in
  milliseconds, a call on the session, and the calls on the file system.
\<close>

datatype event =
    Log string
  | SleepFor nat
  | Call call outcome
  | FsExists string
  | FsCreateDirectories string
  | FileOpen string bool
  | FileClose string

text \<open>
  A sample the session hands to the callbacks during \<^verbatim>\<open>listen()\<close>: the EMG channels
  (already \<^verbatim>\<open>static_cast<int>\<close>), or orientation, accelerometer and gyroscope. \<open>'f\<close> is
  the type of the IMU components.
\<close>

datatype 'f delivery =
    EmgSample "int list"
  | ImuSample "'f list" "'f list" "'f list"

text \<open>
  The environment answers every step of the program that reaches outside: whether the
  interrupt signal arrives during the step, whether the call throws, the boolean or the
  clock reading it returns, and the samples \<^verbatim>\<open>listen()\<close> dispatches. A step reads the
  fields that concern it.
\<close>

record 'f answer =
  sigint :: bool
  raises :: "exception option"
  flag :: bool
  clock :: int
  samples :: "'f delivery list"

text \<open>
  The disposition of \<^verbatim>\<open>SIGINT\<close>: the default one until \<^verbatim>\<open>std::signal\<close> installs the
  program's \<^verbatim>\<open>signal_handler\<close>. Under the default disposition the signal ends the
  process at once; such runs are not followed, and delivery has no effect in the model.
\<close>

datatype disposition = SIG_DFL | Handler_MyoLinux | Handler_MyoSensor

text \<open>
  The state of a run: the environment and the number of answers used so far, the
  \<^verbatim>\<open>volatile sig_atomic_t stop\<close> flag, the signal disposition, the events of the main
  flow so far, the lines the signal handler has logged (it runs asynchronously, so they
  are kept apart from the events of the main flow), the content of every file that
  exists, and the \<^verbatim>\<open>ConnectionWatchdog watchdog\<close> of \<^verbatim>\<open>main\<close>, which outlives the
  iterations of the outer loop.
\<close>

record 'f world =
  env :: "nat \<Rightarrow> 'f answer"
  tick :: nat
  stop :: bool
  on_sigint :: disposition
  trace :: "event list"
  handler_log :: "string list"
  files :: "string \<Rightarrow> string option"
  watchdog :: ConnectionWatchdog

type_synonym ('f, 'a) prog = "'f world \<Rightarrow> (exception + 'a) \<times> 'f world"

definition emit :: "event \<Rightarrow> 'f world \<Rightarrow> 'f world" where
  "emit e w = w\<lparr>trace := trace w @ [e]\<rparr>"

definition log_message :: "string \<Rightarrow> 'f world \<Rightarrow> 'f world" where
  "log_message message w = emit (Log message) w"

text \<open>
  \<^verbatim>\<open>signal_handler\<close>: both programs set \<^verbatim>\<open>stop = 1\<close>; the one of \<^verbatim>\<open>MyoSensor/main.cpp\<close>
  logs a line first.
\<close>

definition signal_handler :: "'f world \<Rightarrow> 'f world" where
  "signal_handler w =
     (case on_sigint w of
        SIG_DFL \<Rightarrow> w
      | Handler_MyoLinux \<Rightarrow> w\<lparr>stop := True\<rparr>
      | Handler_MyoSensor \<Rightarrow>
          w\<lparr>handler_log := handler_log w @ [''Signal well received''], stop := True\<rparr>)"

definition next_answer :: "'f world \<Rightarrow> 'f answer \<times> 'f world" where
  "next_answer w =
     (let a = env w (tick w); w1 = w\<lparr>tick := Suc (tick w)\<rparr>
      in (a, if sigint a then signal_handler w1 else w1))"

text \<open>Reading the \<^verbatim>\<open>stop\<close> flag in a loop condition.\<close>

definition read_stop :: "'f world \<Rightarrow> bool \<times> 'f world" where
  "read_stop w = (case next_answer w of (a, w1) \<Rightarrow> (stop w1, w1))"

definition sleep_for :: "nat \<Rightarrow> 'f world \<Rightarrow> 'f world" where
  "sleep_for ms w = (case next_answer w of (a, w1) \<Rightarrow> emit (SleepFor ms) w1)"

text \<open>A clock: \<^verbatim>\<open>steady_clock::now()\<close>, \<^verbatim>\<open>system_clock::now()\<close> or \<^verbatim>\<open>std::time(nullptr)\<close>.\<close>

definition read_clock :: "'f world \<Rightarrow> int \<times> 'f world" where
  "read_clock w = (case next_answer w of (a, w1) \<Rightarrow> (clock a, w1))"

subsection \<open>Sequencing, throwing and catching\<close>

definition returnE :: "'a \<Rightarrow> ('f, 'a) prog" where
  "returnE x w = (Inr x, w)"

definition throwE :: "exception \<Rightarrow> ('f, 'a) prog" where
  "throwE e w = (Inl e, w)"

definition bindE :: "('f, 'a) prog \<Rightarrow> ('a \<Rightarrow> ('f, 'b) prog) \<Rightarrow> ('f, 'b) prog" where
  "bindE m f w = (case m w of (Inl e, w1) \<Rightarrow> (Inl e, w1) | (Inr x, w1) \<Rightarrow> f x w1)"

definition thenE :: "('f, 'a) prog \<Rightarrow> ('f, 'b) prog \<Rightarrow> ('f, 'b) prog" where
  "thenE m k = bindE m (\<lambda>x. k)"

text \<open>A statement that cannot throw, as a step of a sequence.\<close>

definition liftE :: "('f world \<Rightarrow> 'f world) \<Rightarrow> ('f, unit) prog" where
  "liftE f w = (Inr (), f w)"

text \<open>
  \<^verbatim>\<open>try { m } catch (const std::exception& e) { h e }\<close> with a handler that does not
  throw: the value of the block, or the value the handler gives.
\<close>

definition catchE ::
  "('f, 'a) prog \<Rightarrow> (exception \<Rightarrow> 'f world \<Rightarrow> 'a \<times> 'f world) \<Rightarrow> 'f world \<Rightarrow> 'a \<times> 'f world" where
  "catchE m h w = (case m w of (Inl e, w1) \<Rightarrow> h e w1 | (Inr x, w1) \<Rightarrow> (x, w1))"

subsection \<open>Calls on the device session\<close>

definition client_call :: "call \<Rightarrow> ('f, 'f answer) prog" where
  "client_call c w =
     (case next_answer w of
        (a, w1) \<Rightarrow>
          (case raises a of
             Some e \<Rightarrow> (Inl e, emit (Call c (Threw e)) w1)
           | None \<Rightarrow> (Inr a, emit (Call c Returned) w1)))"

definition connected :: "('f, bool) prog" where
  "connected = bindE (client_call CConnected) (\<lambda>a. returnE (flag a))"

definition connect :: "byte list \<Rightarrow> int \<Rightarrow> ('f, unit) prog" where
  "connect address t = bindE (client_call (CConnect address t)) (\<lambda>a. returnE ())"

definition connect_default :: "('f, unit) prog" where
  "connect_default = bindE (client_call CConnectDefault) (\<lambda>a. returnE ())"

definition disconnect :: "('f, unit) prog" where
  "disconnect = bindE (client_call CDisconnect) (\<lambda>a. returnE ())"

definition setSleepMode :: "SleepMode \<Rightarrow> ('f, unit) prog" where
  "setSleepMode m = bindE (client_call (CSetSleepMode m)) (\<lambda>a. returnE ())"

definition setMode :: "EmgMode \<Rightarrow> ImuMode \<Rightarrow> ClassifierMode \<Rightarrow> ('f, unit) prog" where
  "setMode e i c = bindE (client_call (CSetMode e i c)) (\<lambda>a. returnE ())"

definition onEmg :: "('f, unit) prog" where
  "onEmg = bindE (client_call COnEmg) (\<lambda>a. returnE ())"

definition onImu :: "('f, unit) prog" where
  "onImu = bindE (client_call COnImu) (\<lambda>a. returnE ())"

definition listen :: "('f, 'f delivery list) prog" where
  "listen = bindE (client_call CListen) (\<lambda>a. returnE (samples a))"

subsection \<open>\<^verbatim>\<open>std::to_string\<close> and \<^verbatim>\<open>operator<<\<close> on integers\<close>

definition digit_char :: "nat \<Rightarrow> char" where
  "digit_char d = ''0123456789'' ! d"

function decimal :: "nat \<Rightarrow> string" where
  "decimal n = (if n < 10 then [digit_char n] else decimal (n div 10) @ [digit_char (n mod 10)])"
  by pat_completeness auto
termination
  by (relation "measure (\<lambda>n. n)") auto

declare decimal.simps [simp del]

definition to_string :: "int \<Rightarrow> string" where
  "to_string i = (if i < 0 then CHR ''-'' # decimal (nat (- i)) else decimal (nat i))"

text \<open>How a call that gave \<open>r\<close> ended.\<close>

fun outcome_of :: "exception + 'a \<Rightarrow> outcome" where
  "outcome_of (Inl e) = Threw e"
| "outcome_of (Inr x) = Returned"


section \<open>The reconnection routine (MyoLinux/src/main.cpp)\<close>

definition connection_timeout :: int where
  "connection_timeout = 30"

definition MAX_RECONNECT_ATTEMPTS :: nat where
  "MAX_RECONNECT_ATTEMPTS = 5"

definition RECONNECT_DELAY_MS :: nat where
  "RECONNECT_DELAY_MS = 10000"

text \<open>
  The \<^verbatim>\<open>try\<close> block of \<^verbatim>\<open>reconnect\<close>. Its value says whether the block executed
  \<^verbatim>\<open>return\<close>. \<^verbatim>\<open>std::to_string(client.connected())\<close> converts the \<^verbatim>\<open>bool\<close> to \<^verbatim>\<open>int\<close>.
\<close>

definition reconnect_try :: "byte list \<Rightarrow> ('f, bool) prog" where
  "reconnect_try address =
     bindE connected (\<lambda>c.
       if c then
         thenE (liftE (log_message ''Trying to reconnect even though we're connected ...''))
        (thenE (connect address connection_timeout)
        (thenE (setSleepMode NeverSleep)
        (thenE (setMode SendEmg SendData Disabled)
        (thenE (liftE (log_message ''Reconnection successful!''))
               (returnE True)))))
       else
         thenE (liftE (log_message ''Attempting to reconnect...''))
        (bindE connected (\<lambda>c2.
         thenE (liftE (log_message (to_string (if c2 then 1 else 0))))
        (thenE disconnect
        (thenE (liftE (sleep_for 1000))
        (thenE (connect address connection_timeout)
               (returnE False)))))))"

definition reconnect_catch :: "exception \<Rightarrow> 'f world \<Rightarrow> bool \<times> 'f world" where
  "reconnect_catch e w = (False, log_message (''Reconnection error: '' @ what e) w)"

text \<open>
  The \<^verbatim>\<open>while\<close> loop of \<^verbatim>\<open>reconnect\<close>, from the value of \<^verbatim>\<open>reconnect_attempts\<close> at the
  loop head. Next to the outcome of the function (\<open>Inr ()\<close> for \<^verbatim>\<open>return\<close>, \<open>Inl\<close> for the
  exception thrown after the loop) the result holds the value of \<^verbatim>\<open>reconnect_attempts\<close>
  when the function is left.
\<close>

function reconnect_loop ::
  "byte list \<Rightarrow> nat \<Rightarrow> 'f world \<Rightarrow> ((exception + unit) \<times> nat) \<times> 'f world" where
  "reconnect_loop address reconnect_attempts w =
     (if reconnect_attempts < MAX_RECONNECT_ATTEMPTS then
        (case catchE (reconnect_try address) reconnect_catch w of
           (True, w1) \<Rightarrow> ((Inr (), reconnect_attempts), w1)
         | (False, w1) \<Rightarrow>
             reconnect_loop address (reconnect_attempts + 1)
               (sleep_for RECONNECT_DELAY_MS
                 (log_message (''Reconnection failed. Trying again in ''
                     @ to_string (int (RECONNECT_DELAY_MS div 1000)) @ '' seconds...'') w1)))
      else
        ((Inl (runtime_error (''Unable to reconnect after ''
             @ to_string (int MAX_RECONNECT_ATTEMPTS) @ '' attempts.'')), reconnect_attempts), w))"
  by pat_completeness auto
termination
  by (relation "measure (\<lambda>(address, n, w). MAX_RECONNECT_ATTEMPTS - n)") auto

declare reconnect_loop.simps [simp del]

definition reconnect :: "byte list \<Rightarrow> ('f, unit) prog" where
  "reconnect address w = (case reconnect_loop address 0 w of ((r, n), w1) \<Rightarrow> (r, w1))"

text \<open>For the statements: the calls in a trace, and the connect attempts among them.\<close>

fun is_connect :: "event \<Rightarrow> bool" where
  "is_connect (Call (CConnect a t) r) = True"
| "is_connect (Call CConnectDefault r) = True"
| "is_connect e = False"

definition connect_attempts :: "event list \<Rightarrow> nat" where
  "connect_attempts es = length (filter is_connect es)"

text \<open>
  An environment given by the answers to the first steps and the answer to every later
  one, and the world a run starts from.
\<close>

definition script :: "'f answer list \<Rightarrow> 'f answer \<Rightarrow> nat \<Rightarrow> 'f answer" where
  "script as d i = (if i < length as then as ! i else d)"

definition ok :: "'f answer" where
  "ok = \<lparr>sigint = False, raises = None, flag = True, clock = 0, samples = []\<rparr>"

definition no :: "'f answer" where
  "no = \<lparr>sigint = False, raises = None, flag = False, clock = 0, samples = []\<rparr>"

definition fails :: "string \<Rightarrow> 'f answer" where
  "fails m = \<lparr>sigint = False, raises = Some (runtime_error m), flag = False, clock = 0,
     samples = []\<rparr>"

definition initial_world :: "(nat \<Rightarrow> 'f answer) \<Rightarrow> 'f world" where
  "initial_world e =
     \<lparr>env = e, tick = 0, stop = False, on_sigint = SIG_DFL, trace = [], handler_log = [],
      files = (\<lambda>name. None), watchdog = ConnectionWatchdog_new 0 0\<rparr>"

text \<open>
  The answers to one iteration of the loop of \<^verbatim>\<open>reconnect\<close> while the device is off
  (not connected, not connected, \<^verbatim>\<open>disconnect\<close> returns, the sleep of one second,
  \<^verbatim>\<open>connect\<close> throws, the sleep of ten seconds), and to five of them.
\<close>

definition device_off :: "'f answer list" where
  "device_off = [no, no, ok, ok, fails ''no device'', ok]"

definition device_off_5 :: "'f answer list" where
  "device_off_5 = device_off @ device_off @ device_off @ device_off @ device_off"

text \<open>A device address for the examples.\<close>

definition example_address :: "byte list" where
  "example_address = [0x00, 0x11, 0x22, 0x33, 0x44, 0x55]"

text \<open>
  A run that enters \<^verbatim>\<open>reconnect\<close> with the handler installed and the \<^verbatim>\<open>stop\<close> flag
  already set, while the device is off; and the events of one iteration of the loop
  in which \<^verbatim>\<open>connect\<close> throws.
\<close>

definition stopped_world :: "'f world" where
  "stopped_world =
     (initial_world (script device_off_5 ok))\<lparr>stop := True, on_sigint := Handler_MyoLinux\<rparr>"

definition failed_iteration :: "byte list \<Rightarrow> event list" where
  "failed_iteration address =
     [Call CConnected Returned,
      Log ''Attempting to reconnect...'',
      Call CConnected Returned,
      Log ''0'',
      Call CDisconnect Returned,
      SleepFor 1000,
      Call (CConnect address connection_timeout) (Threw (runtime_error ''no device'')),
      Log ''Reconnection error: no device'',
      Log ''Reconnection failed. Trying again in 10 seconds...'',
      SleepFor 10000]"


section \<open>The acquisition loop and the output file (both programs)\<close>

text \<open>
  The sample frame: the locals \<^verbatim>\<open>emg_data\<close>, \<^verbatim>\<open>ori_data\<close>, \<^verbatim>\<open>acc_data\<close> and \<^verbatim>\<open>gyr_data\<close>
  that the callbacks overwrite and the loop prints. They are arrays of 8, 4, 3 and 3
  elements; the lists of a frame are meant to have these lengths.
\<close>

record 'f frame =
  emg_data :: "int list"
  ori_data :: "'f list"
  acc_data :: "'f list"
  gyr_data :: "'f list"

text \<open>
  What the programs take from the platform and do not compute themselves:
  \<^verbatim>\<open>operator<<\<close> on a component of an IMU sample, \<^verbatim>\<open>std::put_time\<close> of
  \<^verbatim>\<open>std::localtime\<close> with the format \<^verbatim>\<open>"%Y%m%d_%H%M%S"\<close>, and the indeterminate content
  of the sample frame, which is declared without an initialiser.
\<close>

record 'f platform =
  put_float :: "'f \<Rightarrow> string"
  put_time :: "int \<Rightarrow> string"
  indeterminate :: "'f frame"

text \<open>The callback given to \<^verbatim>\<open>onEmg\<close>: \<^verbatim>\<open>emg_data[i] = static_cast<int>(sample[i])\<close>.\<close>

definition emg_callback :: "'f frame \<Rightarrow> int list \<Rightarrow> 'f frame" where
  "emg_callback fr sample =
     fr\<lparr>emg_data := fold (\<lambda>i d. d[i := sample ! i]) [0..<8] (emg_data fr)\<rparr>"

text \<open>The callback given to \<^verbatim>\<open>onImu\<close>.\<close>

definition imu_callback :: "'f frame \<Rightarrow> 'f list \<Rightarrow> 'f list \<Rightarrow> 'f list \<Rightarrow> 'f frame" where
  "imu_callback fr ori acc gyr = fr\<lparr>ori_data := ori, acc_data := acc, gyr_data := gyr\<rparr>"

fun dispatch :: "'f delivery \<Rightarrow> 'f frame \<Rightarrow> 'f frame" where
  "dispatch (EmgSample sample) fr = emg_callback fr sample"
| "dispatch (ImuSample ori acc gyr) fr = imu_callback fr ori acc gyr"

definition endl :: string where
  "endl = [CHR 0x0A]"

definition csv_header :: string where
  "csv_header =
     ''Timestamp,EMG1,EMG2,EMG3,EMG4,EMG5,EMG6,EMG7,EMG8,''
     @ ''OrientationW,OrientationX,OrientationY,OrientationZ,''
     @ ''AccX,AccY,AccZ,''
     @ ''GyroX,GyroY,GyroZ'' @ endl"

text \<open>The characters one pass through the row-writing statements sends to the file.\<close>

definition csv_row :: "'f platform \<Rightarrow> int \<Rightarrow> 'f frame \<Rightarrow> string" where
  "csv_row pl timestamp fr =
     to_string timestamp @ '',''
     @ concat (map (\<lambda>j. to_string (emg_data fr ! j) @ '','') [0..<8])
     @ put_float pl (ori_data fr ! 0) @ '','' @ put_float pl (ori_data fr ! 1) @ '',''
     @ put_float pl (ori_data fr ! 2) @ '','' @ put_float pl (ori_data fr ! 3) @ '',''
     @ put_float pl (acc_data fr ! 0) @ '','' @ put_float pl (acc_data fr ! 1) @ '',''
     @ put_float pl (acc_data fr ! 2) @ '',''
     @ put_float pl (gyr_data fr ! 0) @ '','' @ put_float pl (gyr_data fr ! 1) @ '',''
     @ put_float pl (gyr_data fr ! 2) @ endl"

text \<open>
  \<^verbatim>\<open>std::ofstream csv_file(filename, std::ios::app)\<close> and \<^verbatim>\<open>is_open()\<close>: the environment
  says whether the file opens. Opening creates the file when it is not there and keeps
  what it holds when it is. A write to the open file appends; writes are taken to
  succeed.
\<close>

definition content :: "'f world \<Rightarrow> string \<Rightarrow> string" where
  "content w name = (case files w name of None \<Rightarrow> [] | Some c \<Rightarrow> c)"

definition open_append :: "string \<Rightarrow> 'f world \<Rightarrow> bool \<times> 'f world" where
  "open_append name w =
     (case next_answer w of
        (a, w1) \<Rightarrow>
          if flag a
          then (True, emit (FileOpen name True) (w1\<lparr>files := (files w1)(name \<mapsto> content w1 name)\<rparr>))
          else (False, emit (FileOpen name False) w1))"

definition file_write :: "string \<Rightarrow> string \<Rightarrow> 'f world \<Rightarrow> 'f world" where
  "file_write name s w = w\<lparr>files := (files w)(name \<mapsto> content w name @ s)\<rparr>"

text \<open>
  \<^verbatim>\<open>csv_file.close()\<close>, and the destructor of \<^verbatim>\<open>csv_file\<close> when an exception leaves its
  scope.
\<close>

definition file_close :: "string \<Rightarrow> 'f world \<Rightarrow> 'f world" where
  "file_close name w = emit (FileClose name) w"

text \<open>\<^verbatim>\<open>duration_cast<milliseconds>\<close> of a tick count of the steady clock.\<close>

definition duration_cast_milliseconds :: "int \<Rightarrow> int" where
  "duration_cast_milliseconds d = d sdiv (steady_clock_ticks_per_second sdiv 1000)"

definition update_watchdog :: "'f world \<Rightarrow> 'f world" where
  "update_watchdog w =
     (case read_clock w of (now, w1) \<Rightarrow> w1\<lparr>watchdog := update (watchdog w1) now\<rparr>)"

definition watchdog_timed_out :: "('f, bool) prog" where
  "watchdog_timed_out w =
     (case read_clock w of (now, w1) \<Rightarrow> (Inr (is_timeout (watchdog w1) now), w1))"

definition steady_clock_now :: "('f, int) prog" where
  "steady_clock_now w = (case read_clock w of (now, w1) \<Rightarrow> (Inr now, w1))"

text \<open>
  Writing one row: the time stamp is the system clock in milliseconds since the epoch.
\<close>

definition write_row :: "'f platform \<Rightarrow> string \<Rightarrow> 'f frame \<Rightarrow> ('f, unit) prog" where
  "write_row pl filename fr w =
     (case read_clock w of
        (timestamp, w1) \<Rightarrow> (Inr (), file_write filename (csv_row pl timestamp fr) w1))"

text \<open>
  The body of the acquisition loop, from the frame and \<^verbatim>\<open>last_write_time\<close> to their
  new values: \<^verbatim>\<open>listen()\<close> runs the callbacks; \<^verbatim>\<open>watchdog.update()\<close>; a row is written
  when at least 10 ms have passed since the last one; \<^verbatim>\<open>watchdog.is_timeout()\<close> throws;
  a sleep of 1 ms.
\<close>

definition acquisition_body ::
  "'f platform \<Rightarrow> string \<Rightarrow> 'f frame \<Rightarrow> int \<Rightarrow> ('f, 'f frame \<times> int) prog" where
  "acquisition_body pl filename fr last_write_time =
     bindE listen (\<lambda>ds.
     thenE (liftE update_watchdog)
    (bindE steady_clock_now (\<lambda>current_time.
     bindE (if duration_cast_milliseconds (current_time - last_write_time) \<ge> 10
            then thenE (write_row pl filename (fold dispatch ds fr)) (returnE current_time)
            else returnE last_write_time) (\<lambda>last_write_time1.
     bindE watchdog_timed_out (\<lambda>timed_out.
       if timed_out then throwE (runtime_error ''Watchdog timeout'')
       else thenE (liftE (sleep_for 1))
                  (returnE (fold dispatch ds fr, last_write_time1)))))))"

text \<open>
  \<^verbatim>\<open>while (client.connected() && !stop)\<close>. The loop may run for ever: \<open>fuel\<close> bounds
  the number of iterations, and \<open>None\<close> says that it was used up.
\<close>

fun acquisition_loop ::
  "nat \<Rightarrow> 'f platform \<Rightarrow> string \<Rightarrow> 'f frame \<Rightarrow> int \<Rightarrow> 'f world
     \<Rightarrow> ((exception + unit) \<times> 'f world) option" where
  "acquisition_loop 0 pl filename fr last_write_time w = None"
| "acquisition_loop (Suc fuel) pl filename fr last_write_time w =
     (case connected w of
        (Inl e, w1) \<Rightarrow> Some (Inl e, w1)
      | (Inr c, w1) \<Rightarrow>
          if \<not> c then Some (Inr (), w1)
          else (case read_stop w1 of
                  (s, w2) \<Rightarrow>
                    if s then Some (Inr (), w2)
                    else (case acquisition_body pl filename fr last_write_time w2 of
                            (Inl e, w3) \<Rightarrow> Some (Inl e, w3)
                          | (Inr (fr1, last_write_time1), w3) \<Rightarrow>
                              acquisition_loop fuel pl filename fr1 last_write_time1 w3)))"

text \<open>
  From the open file to its close, as both programs have it: the header, the
  configuration of the device, the callbacks, the loop, \<^verbatim>\<open>csv_file.close()\<close> and the
  line logged when the loop ended on a disconnection.
\<close>

definition configure :: "('f, unit) prog" where
  "configure =
     thenE (setSleepMode NeverSleep)
    (thenE (setMode SendEmg SendData Disabled)
    (thenE onEmg onImu))"

definition record_episode ::
  "nat \<Rightarrow> 'f platform \<Rightarrow> string \<Rightarrow> 'f world \<Rightarrow> ((exception + unit) \<times> 'f world) option" where
  "record_episode fuel pl filename w =
     (case thenE (liftE (file_write filename csv_header))
            (thenE configure
            (bindE steady_clock_now (\<lambda>last_write_time.
             thenE (liftE (log_message ''Starting data collection loop''))
                   (returnE last_write_time)))) w of
        (Inl e, w1) \<Rightarrow> Some (Inl e, file_close filename w1)
      | (Inr last_write_time, w1) \<Rightarrow>
          (case acquisition_loop fuel pl filename (indeterminate pl) last_write_time w1 of
             None \<Rightarrow> None
           | Some (Inl e, w2) \<Rightarrow> Some (Inl e, file_close filename w2)
           | Some (Inr u, w2) \<Rightarrow>
               Some (bindE connected (\<lambda>c.
                       if \<not> c
                       then liftE (log_message ''Disconnection detected. Attempting to reconnect...'')
                       else returnE ()) (file_close filename w2))))"

text \<open>
  For the statements about the file: the fields of a line between separators and the
  line of given fields, the nineteen fields of a row, and what a stretch of a run
  appended to a file, every other file left as it was.
\<close>

fun split_at :: "char \<Rightarrow> string \<Rightarrow> string list" where
  "split_at c [] = [[]]"
| "split_at c (x # xs) =
     (if x = c then [] # split_at c xs
      else (case split_at c xs of [] \<Rightarrow> [[x]] | f # fs \<Rightarrow> (x # f) # fs))"

fun join_with :: "char \<Rightarrow> string list \<Rightarrow> string" where
  "join_with c [] = []"
| "join_with c [f] = f"
| "join_with c (f # g # fs) = f @ c # join_with c (g # fs)"

definition csv_fields :: "'f platform \<Rightarrow> int \<Rightarrow> 'f frame \<Rightarrow> string list" where
  "csv_fields pl timestamp fr =
     to_string timestamp
     # map (\<lambda>j. to_string (emg_data fr ! j)) [0, 1, 2, 3, 4, 5, 6, 7]
     @ map (put_float pl)
         [ori_data fr ! 0, ori_data fr ! 1, ori_data fr ! 2, ori_data fr ! 3,
          acc_data fr ! 0, acc_data fr ! 1, acc_data fr ! 2,
          gyr_data fr ! 0, gyr_data fr ! 1, gyr_data fr ! 2]"

definition wrote :: "string \<Rightarrow> string \<Rightarrow> 'f world \<Rightarrow> 'f world \<Rightarrow> bool" where
  "wrote name s w w1 \<longleftrightarrow>
     (\<forall>n. content w1 n = (if n = name then content w n @ s else content w n))"


section \<open>The two programs\<close>

text \<open>
  How an iteration of the outer loop ends when no exception leaves its \<^verbatim>\<open>try\<close> block
  (the end of the block or \<^verbatim>\<open>continue\<close>, or \<^verbatim>\<open>return\<close> with a status), and how the
  process ends: with an exit status, or by \<^verbatim>\<open>std::terminate\<close> on an exception that
  nothing catches.
\<close>

datatype flow = Next | Return int

datatype exit = Exit int | Terminate exception

text \<open>
  The start of both programs after the arguments: the output directory, the signal
  handler, the serial port of the session and the watchdog. An exception of
  \<^verbatim>\<open>std::filesystem\<close> or of the \<^verbatim>\<open>Serial\<close> constructor is caught nowhere.
\<close>

definition fs_call :: "event \<Rightarrow> ('f, bool) prog" where
  "fs_call ev w =
     (case next_answer w of
        (a, w1) \<Rightarrow>
          (case raises a of
             Some e \<Rightarrow> (Inl e, emit ev w1)
           | None \<Rightarrow> (Inr (flag a), emit ev w1)))"

definition open_serial :: "('f, unit) prog" where
  "open_serial w =
     (case next_answer w of
        (a, w1) \<Rightarrow> (case raises a of Some e \<Rightarrow> (Inl e, w1) | None \<Rightarrow> (Inr (), w1)))"

definition watchdog_new :: "int \<Rightarrow> 'f world \<Rightarrow> 'f world" where
  "watchdog_new t w =
     (case read_clock w of (now, w1) \<Rightarrow> w1\<lparr>watchdog := ConnectionWatchdog_new t now\<rparr>)"

definition ensure_directory :: "string \<Rightarrow> ('f, flow) prog" where
  "ensure_directory output_directory =
     bindE (fs_call (FsExists output_directory)) (\<lambda>there.
       if \<not> there then
         bindE (fs_call (FsCreateDirectories output_directory)) (\<lambda>created.
           if \<not> created then
             thenE (liftE (log_message
                      (''Error: Failed to create output directory: '' @ output_directory)))
                   (returnE (Return 1))
           else returnE Next)
       else returnE Next)"

definition start_session :: "disposition \<Rightarrow> ('f, unit) prog" where
  "start_session handler =
     thenE (liftE (\<lambda>w. w\<lparr>on_sigint := handler\<rparr>))
    (thenE open_serial
           (liftE (watchdog_new 60)))"

text \<open>\<^verbatim>\<open>fs::path(output_directory) / name\<close> for a relative \<open>name\<close>.\<close>

definition path_append :: "string \<Rightarrow> string \<Rightarrow> string" where
  "path_append dir name =
     (if dir = [] \<or> last dir = CHR ''/'' then dir @ name else dir @ ''/'' @ name)"

definition SIZE_MAX :: nat where
  "SIZE_MAX = 2 ^ 64 - 1"

text \<open>
  \<^verbatim>\<open>s.substr(s.length() - 5)\<close>: the subtraction is in \<^verbatim>\<open>size_t\<close> and wraps, and
  \<^verbatim>\<open>substr\<close> throws when the position is beyond the length.
\<close>

definition substr_last5 :: "string \<Rightarrow> exception + string" where
  "substr_last5 s =
     (let pos = (length s + (SIZE_MAX + 1) - 5) mod (SIZE_MAX + 1) in
      if pos > length s then Inl (out_of_range ''basic_string::substr'')
      else Inr (drop pos s))"

subsection \<open>MyoLinux/src/main.cpp\<close>

text \<open>The \<^verbatim>\<open>try\<close> block of the outer loop.\<close>

definition MyoLinux_try ::
  "nat \<Rightarrow> 'f platform \<Rightarrow> string \<Rightarrow> string \<Rightarrow> byte list \<Rightarrow> 'f world
     \<Rightarrow> ((exception + flow) \<times> 'f world) option" where
  "MyoLinux_try fuel pl output_directory mac_address_str address w =
     (case bindE connected (\<lambda>c.
             if \<not> c
             then thenE (liftE (log_message ''Attempting to connect to Myo...''))
                        (connect address connection_timeout)
             else returnE ()) w of
        (Inl e, w1) \<Rightarrow> Some (Inl e, w1)
      | (Inr u, w1) \<Rightarrow>
          (case connected w1 of
             (Inl e, w2) \<Rightarrow> Some (Inl e, w2)
           | (Inr c, w2) \<Rightarrow>
               if \<not> c then
                 Some (Inr Next,
                   sleep_for 5000
                     (log_message ''Connection failed. Retrying in 5 seconds...'' w2))
               else
                 (case read_clock (log_message ''Successfully connected to Myo!'' w2) of
                    (t, w3) \<Rightarrow>
                      (case substr_last5 mac_address_str of
                         Inl e \<Rightarrow> Some (Inl e, w3)
                       | Inr suffix \<Rightarrow>
                           (let filename = path_append output_directory
                                  (''myo_data_'' @ suffix @ ''_'' @ put_time pl t @ ''.csv'')
                            in case open_append filename w3 of
                                 (False, w4) \<Rightarrow>
                                   Some (Inr (Return 1),
                                     log_message (''Error: Unable to open CSV file: '' @ filename) w4)
                               | (True, w4) \<Rightarrow>
                                   (case record_episode fuel pl filename w4 of
                                      None \<Rightarrow> None
                                    | Some (Inl e, w5) \<Rightarrow> Some (Inl e, w5)
                                    | Some (Inr u, w5) \<Rightarrow> Some (Inr Next, w5)))))))"

text \<open>The \<^verbatim>\<open>catch\<close> block of the outer loop, with its own \<^verbatim>\<open>try\<close> around \<^verbatim>\<open>reconnect\<close>.\<close>

definition MyoLinux_catch :: "byte list \<Rightarrow> exception \<Rightarrow> 'f world \<Rightarrow> 'f world" where
  "MyoLinux_catch address e w =
     (case reconnect address
             (sleep_for 30000
               (log_message ''Attempting to reconnect in 30 seconds...''
                 (log_message (''Error: '' @ what e) w))) of
        (Inl e2, w1) \<Rightarrow> log_message (''Reconnection failed: '' @ what e2) w1
      | (Inr u, w1) \<Rightarrow> w1)"

text \<open>After the outer loop: the last disconnect, in its \<^verbatim>\<open>try\<close>, and \<^verbatim>\<open>return 0\<close>.\<close>

definition MyoLinux_shutdown :: "'f world \<Rightarrow> exit \<times> 'f world" where
  "MyoLinux_shutdown w =
     (case disconnect (log_message ''Disconnecting...'' w) of
        (Inl e, w1) \<Rightarrow>
          (Exit 0, log_message ''Program ended normally.''
                     (log_message ''Program ended abnormally.'' w1))
      | (Inr u, w1) \<Rightarrow> (Exit 0, log_message ''Program ended normally.'' w1))"

text \<open>
  \<^verbatim>\<open>while (!stop)\<close>. The loop ends only on the flag or on \<^verbatim>\<open>return\<close>; \<open>fuel\<close> bounds
  its iterations and those of the acquisition loop inside, and \<open>None\<close> says that it was
  used up.
\<close>

fun MyoLinux_loop ::
  "nat \<Rightarrow> 'f platform \<Rightarrow> string \<Rightarrow> string \<Rightarrow> byte list \<Rightarrow> 'f world
     \<Rightarrow> (exit \<times> 'f world) option" where
  "MyoLinux_loop 0 pl output_directory mac_address_str address w = None"
| "MyoLinux_loop (Suc fuel) pl output_directory mac_address_str address w =
     (case read_stop w of
        (s, w1) \<Rightarrow>
          if s then Some (MyoLinux_shutdown w1)
          else (case MyoLinux_try fuel pl output_directory mac_address_str address w1 of
                  None \<Rightarrow> None
                | Some (Inr (Return status), w2) \<Rightarrow> Some (Exit status, w2)
                | Some (Inr Next, w2) \<Rightarrow>
                    MyoLinux_loop fuel pl output_directory mac_address_str address w2
                | Some (Inl e, w2) \<Rightarrow>
                    MyoLinux_loop fuel pl output_directory mac_address_str address
                      (MyoLinux_catch address e w2)))"

text \<open>
  \<^verbatim>\<open>main\<close>. \<open>argv\<close> holds the \<^verbatim>\<open>argc\<close> arguments, the name of the program first.
\<close>

definition program_name :: "string list \<Rightarrow> string" where
  "program_name argv = (case argv of [] \<Rightarrow> [] | a # as \<Rightarrow> a)"

definition MyoLinux_main ::
  "nat \<Rightarrow> 'f platform \<Rightarrow> string list \<Rightarrow> 'f world \<Rightarrow> (exit \<times> 'f world) option" where
  "MyoLinux_main fuel pl argv w0 =
     (let w = log_message ''Starting Myo data collection application'' w0 in
      if length argv < 3 then
        Some (Exit 1,
          log_message (''Error: Insufficient arguments. Usage: '' @ program_name argv
             @ '' <output_directory> <MAC_address>'') w)
      else
        (case parse_mac_address (argv ! 2) of
           Inl e \<Rightarrow>
             Some (Exit 1, log_message (''Error parsing MAC address: '' @ what e) w)
         | Inr address \<Rightarrow>
             (case ensure_directory (argv ! 1) w of
                (Inl e, w1) \<Rightarrow> Some (Terminate e, w1)
              | (Inr (Return status), w1) \<Rightarrow> Some (Exit status, w1)
              | (Inr Next, w1) \<Rightarrow>
                  (case start_session Handler_MyoLinux w1 of
                     (Inl e, w2) \<Rightarrow> Some (Terminate e, w2)
                   | (Inr u, w2) \<Rightarrow> MyoLinux_loop fuel pl (argv ! 1) (argv ! 2) address w2))))"

subsection \<open>MyoSensor/main.cpp\<close>

definition main_MAX_RECONNECT_ATTEMPTS :: nat where
  "main_MAX_RECONNECT_ATTEMPTS = 5"

definition main_RECONNECT_DELAY_MS :: nat where
  "main_RECONNECT_DELAY_MS = 5000"

text \<open>
  The inner \<^verbatim>\<open>try\<close> block of the retry loop; its value says whether it executed
  \<^verbatim>\<open>break\<close>.
\<close>

definition MyoSensor_connect_try :: "('f, bool) prog" where
  "MyoSensor_connect_try =
     thenE (liftE (log_message ''Attempting to connect to Myo...''))
    (thenE connect_default
    (bindE connected (\<lambda>c.
       if c then thenE (liftE (log_message ''Successfully connected to Myo!'')) (returnE True)
       else returnE False)))"

definition MyoSensor_connect_catch :: "exception \<Rightarrow> 'f world \<Rightarrow> bool \<times> 'f world" where
  "MyoSensor_connect_catch e w = (False, log_message (''Connection error: '' @ what e) w)"

text \<open>
  \<^verbatim>\<open>while (!client.connected() && reconnect_attempts < MAX_RECONNECT_ATTEMPTS && !stop)\<close>,
  from the value of \<^verbatim>\<open>reconnect_attempts\<close> at the loop head; the conjuncts are
  evaluated from the left, and the later ones only when the earlier ones hold. The
  result holds the value of \<^verbatim>\<open>reconnect_attempts\<close> when the loop is left; \<open>Inl\<close> is an
  exception of \<^verbatim>\<open>connected()\<close> in the loop condition.
\<close>

function MyoSensor_connect_loop ::
  "nat \<Rightarrow> 'f world \<Rightarrow> ((exception + unit) \<times> nat) \<times> 'f world" where
  "MyoSensor_connect_loop reconnect_attempts w =
     (case connected w of
        (Inl e, w1) \<Rightarrow> ((Inl e, reconnect_attempts), w1)
      | (Inr c, w1) \<Rightarrow>
          if c then ((Inr (), reconnect_attempts), w1)
          else if \<not> reconnect_attempts < main_MAX_RECONNECT_ATTEMPTS
          then ((Inr (), reconnect_attempts), w1)
          else (case read_stop w1 of
                  (s, w2) \<Rightarrow>
                    if s then ((Inr (), reconnect_attempts), w2)
                    else (case catchE MyoSensor_connect_try MyoSensor_connect_catch w2 of
                            (True, w3) \<Rightarrow> ((Inr (), reconnect_attempts), w3)
                          | (False, w3) \<Rightarrow>
                              MyoSensor_connect_loop (reconnect_attempts + 1)
                                (sleep_for main_RECONNECT_DELAY_MS
                                  (log_message (''Connection failed. Retrying in ''
                                      @ to_string (int (main_RECONNECT_DELAY_MS div 1000))
                                      @ '' seconds...'') w3)))))"
  by pat_completeness auto
termination
  by (relation "measure (\<lambda>(n, w). main_MAX_RECONNECT_ATTEMPTS - n)") auto

declare MyoSensor_connect_loop.simps [simp del]

text \<open>The \<^verbatim>\<open>try\<close> block of the outer loop.\<close>

definition MyoSensor_try ::
  "nat \<Rightarrow> 'f platform \<Rightarrow> string \<Rightarrow> 'f world \<Rightarrow> ((exception + flow) \<times> 'f world) option" where
  "MyoSensor_try fuel pl output_directory w =
     (case MyoSensor_connect_loop 0 w of
        ((Inl e, n), w1) \<Rightarrow> Some (Inl e, w1)
      | ((Inr u, n), w1) \<Rightarrow>
          (case connected w1 of
             (Inl e, w2) \<Rightarrow> Some (Inl e, w2)
           | (Inr c, w2) \<Rightarrow>
               if \<not> c then
                 Some (Inr (Return 1),
                   log_message (''Failed to connect to Myo after ''
                      @ to_string (int main_MAX_RECONNECT_ATTEMPTS) @ '' attempts. Exiting.'') w2)
               else
                 (case read_clock w2 of
                    (t, w3) \<Rightarrow>
                      (let filename = path_append output_directory
                             (''myo_data_'' @ put_time pl t @ ''.csv'')
                       in case open_append filename w3 of
                            (False, w4) \<Rightarrow>
                              Some (Inr (Return 1),
                                log_message (''Error: Failed to open CSV file: '' @ filename) w4)
                          | (True, w4) \<Rightarrow>
                              (case record_episode fuel pl filename w4 of
                                 None \<Rightarrow> None
                               | Some (Inl e, w5) \<Rightarrow> Some (Inl e, w5)
                               | Some (Inr u, w5) \<Rightarrow> Some (Inr Next, w5))))))"

text \<open>
  The \<^verbatim>\<open>catch\<close> block of the outer loop. Its \<^verbatim>\<open>client.disconnect()\<close> is in no \<^verbatim>\<open>try\<close>:
  \<open>Inl\<close> is the exception that leaves \<^verbatim>\<open>main\<close>.
\<close>

definition MyoSensor_catch :: "exception \<Rightarrow> ('f, unit) prog" where
  "MyoSensor_catch e w =
     disconnect
       (sleep_for 5000
         (log_message ''Attempting to reconnect in 5 seconds...''
           (log_message (''Error: '' @ what e) w)))"

text \<open>After the outer loop: the last disconnect, in no \<^verbatim>\<open>try\<close>, and \<^verbatim>\<open>return 0\<close>.\<close>

definition MyoSensor_shutdown :: "'f world \<Rightarrow> exit \<times> 'f world" where
  "MyoSensor_shutdown w =
     (case disconnect w of
        (Inl e, w1) \<Rightarrow> (Terminate e, w1)
      | (Inr u, w1) \<Rightarrow> (Exit 0, log_message ''Program terminated gracefully.'' w1))"

fun MyoSensor_loop ::
  "nat \<Rightarrow> 'f platform \<Rightarrow> string \<Rightarrow> 'f world \<Rightarrow> (exit \<times> 'f world) option" where
  "MyoSensor_loop 0 pl output_directory w = None"
| "MyoSensor_loop (Suc fuel) pl output_directory w =
     (case read_stop w of
        (s, w1) \<Rightarrow>
          if s then Some (MyoSensor_shutdown w1)
          else (case MyoSensor_try fuel pl output_directory w1 of
                  None \<Rightarrow> None
                | Some (Inr (Return status), w2) \<Rightarrow> Some (Exit status, w2)
                | Some (Inr Next, w2) \<Rightarrow> MyoSensor_loop fuel pl output_directory w2
                | Some (Inl e, w2) \<Rightarrow>
                    (case MyoSensor_catch e w2 of
                       (Inl e2, w3) \<Rightarrow> Some (Terminate e2, w3)
                     | (Inr u, w3) \<Rightarrow> MyoSensor_loop fuel pl output_directory w3)))"

definition MyoSensor_main ::
  "nat \<Rightarrow> 'f platform \<Rightarrow> string list \<Rightarrow> 'f world \<Rightarrow> (exit \<times> 'f world) option" where
  "MyoSensor_main fuel pl argv w0 =
     (let w = log_message ''Starting Myo data collection application'' w0 in
      if \<not> length argv > 1 then
        Some (Exit 1,
          log_message (''Error: Output directory not provided. Usage: '' @ program_name argv
             @ '' <output_directory>'') w)
      else
        (case ensure_directory (argv ! 1) w of
           (Inl e, w1) \<Rightarrow> Some (Terminate e, w1)
         | (Inr (Return status), w1) \<Rightarrow> Some (Exit status, w1)
         | (Inr Next, w1) \<Rightarrow>
             (case start_session Handler_MyoSensor w1 of
                (Inl e, w2) \<Rightarrow> Some (Terminate e, w2)
              | (Inr u, w2) \<Rightarrow> MyoSensor_loop fuel pl (argv ! 1) w2)))"

text \<open>
  A platform for the examples: IMU components are integers printed in decimal, a time
  prints as its count of seconds, and the indeterminate frame holds zeros.
\<close>

definition example_platform :: "int platform" where
  "example_platform =
     \<lparr>put_float = to_string,
      put_time = to_string,
      indeterminate = \<lparr>emg_data = [0, 0, 0, 0, 0, 0, 0, 0], ori_data = [0, 0, 0, 0],
        acc_data = [0, 0, 0], gyr_data = [0, 0, 0]\<rparr>\<rparr>"

text \<open>
  An answer during which the interrupt signal arrives, and the answers of three runs of
  \<^verbatim>\<open>MyoSensor/main.cpp\<close>. Each starts with the directory found, the serial port opened,
  the clock read for the watchdog and the \<^verbatim>\<open>stop\<close> flag read clear.
  \<^item> The device never connects: five times not connected, flag clear, \<^verbatim>\<open>connect\<close>
    throws, the sleep; then not connected at the loop head and after the loop.
  \<^item> The signal arrives while the device is off: not connected, flag clear,
    \<^verbatim>\<open>connect\<close> throws, the signal during the sleep; then not connected, the flag
    read set, and not connected after the loop.
  \<^item> The signal arrives during an episode and the last \<^verbatim>\<open>disconnect\<close> throws:
    connected at the loop head and after the loop, the time, the file opened, the four
    calls that configure the session, the steady clock, connected, the signal before
    the flag is read, connected after the close, the flag read set in the outer loop,
    and \<^verbatim>\<open>disconnect\<close> throws.
\<close>

definition interrupt :: "'f answer" where
  "interrupt = \<lparr>sigint = True, raises = None, flag = True, clock = 0, samples = []\<rparr>"

definition refusals :: "'f answer list" where
  "refusals =
     [no, ok, fails ''no device'', ok] @ [no, ok, fails ''no device'', ok]
     @ [no, ok, fails ''no device'', ok] @ [no, ok, fails ''no device'', ok]
     @ [no, ok, fails ''no device'', ok]
     @ [no, no]"

definition never_connects :: "'f answer list" where
  "never_connects = [ok, ok, ok, ok] @ refusals"

definition interrupted_while_off :: "'f answer list" where
  "interrupted_while_off =
     [ok, ok, ok, ok] @ [no, ok, fails ''no device'', interrupt] @ [no, ok, no]"

definition interrupted_then_disconnect_throws :: "'f answer list" where
  "interrupted_then_disconnect_throws =
     [ok, ok, ok, ok] @ [ok, ok, ok, ok] @ [ok, ok, ok, ok] @ [ok, ok, interrupt, ok]
     @ [ok, fails ''port closed'']"

text \<open>
  A run of \<^verbatim>\<open>MyoLinux/src/main.cpp\<close> at the head of its outer loop, the handler
  installed: the flag is read clear, and from then on every call on the session throws.
\<close>

definition port_closed_world :: "'f world" where
  "port_closed_world =
     (initial_world (script [ok] (fails ''port closed'')))\<lparr>on_sigint := Handler_MyoLinux\<rparr>"

text \<open>The events of one iteration of the retry loop of \<^verbatim>\<open>MyoSensor/main.cpp\<close> in which
  \<^verbatim>\<open>connect\<close> throws.\<close>

definition refused_iteration :: "event list" where
  "refused_iteration =
     [Call CConnected Returned,
      Log ''Attempting to connect to Myo...'',
      Call CConnectDefault (Threw (runtime_error ''no device'')),
      Log ''Connection error: no device'',
      Log ''Connection failed. Retrying in 5 seconds...'',
      SleepFor 5000]"



text \<open>
  A run that enters the retry loop of \<^verbatim>\<open>MyoSensor/main.cpp\<close> with the handler installed:
  not connected, the flag read clear, \<^verbatim>\<open>connect\<close> throws; \<open>later\<close> are the answers from the
  sleep of five seconds on.
\<close>

definition refused_once :: "'f answer list \<Rightarrow> 'f world" where
  "refused_once later =
     (initial_world (script ([no, ok, fails ''no device''] @ later) ok))
       \<lparr>on_sigint := Handler_MyoSensor\<rparr>"

text \<open>
  The answers of a run of \<^verbatim>\<open>MyoLinux/src/main.cpp\<close>: the directory found, the serial port
  opened, the clock read for the watchdog; the flag read clear, not connected,
  \<^verbatim>\<open>connect\<close> returns, not connected, the signal during the sleep of five seconds; the
  flag read set, and the last \<^verbatim>\<open>disconnect\<close> returns.
\<close>

definition accepted_then_interrupted :: "'f answer list" where
  "accepted_then_interrupted =
     [ok, ok, ok] @ [ok, no, ok, no, interrupt] @ [ok, ok]"
section \<open>Properties of the watchdog\<close>

lemma duration_cast_seconds_nonneg:
  "0 \<le> d \<Longrightarrow> duration_cast_seconds d = d div 1000000000"
  by (simp add: duration_cast_seconds_def steady_clock_ticks_per_second_def
      signed_divide_int_def sgn_if)

lemma int_less_div_iff:
  fixes k t d :: int
  assumes "0 < k"
  shows "t < d div k \<longleftrightarrow> (t + 1) * k \<le> d"
proof
  assume "t < d div k"
  then have "t + 1 \<le> d div k" by simp
  then have "(t + 1) * k \<le> (d div k) * k"
    using assms by (simp add: mult_right_mono)
  also have "\<dots> \<le> d"
    using assms by (metis div_mult_mod_eq le_add_same_cancel1 pos_mod_sign)
  finally show "(t + 1) * k \<le> d" .
next
  assume "(t + 1) * k \<le> d"
  then have "((t + 1) * k) div k \<le> d div k"
    using assms by (rule zdiv_mono1)
  then show "t < d div k" using assms by simp
qed

lemma is_timeout_after_update:
  assumes "t0 \<le> now"
  shows "is_timeout (update wd t0) now \<longleftrightarrow> (timeout wd + 1) * 1000000000 \<le> now - t0"
proof -
  have "0 \<le> now - t0" using assms by simp
  then have "duration_cast_seconds (now - t0) = (now - t0) div 1000000000"
    by (rule duration_cast_seconds_nonneg)
  moreover have "timeout wd < (now - t0) div 1000000000
      \<longleftrightarrow> (timeout wd + 1) * 1000000000 \<le> now - t0"
    by (rule int_less_div_iff) simp
  ultimately show ?thesis
    by (simp add: is_timeout_def update_def)
qed

lemma not_is_timeout_at_update:
  assumes "0 \<le> timeout wd"
  shows "\<not> is_timeout (update wd t0) t0"
  using assms
  by (simp add: is_timeout_def update_def duration_cast_seconds_def
      steady_clock_ticks_per_second_def)

text \<open>
  Claim C3, as the code has it. The claim reads: immediately after \<^verbatim>\<open>update()\<close> the
  watchdog is not timed out, and a later query with no \<^verbatim>\<open>update()\<close> in between
  answers true iff the time since the update exceeds the threshold \<open>T\<close>. The code
  truncates the elapsed time to whole seconds before it compares: with a threshold
  \<open>T \<ge> 0\<close> the query at the instant of the update answers false, and a query at a
  reading \<open>now\<close> of the steady clock, not before the update, answers true iff the
  whole seconds elapsed exceed \<open>T\<close>, that is, iff at least \<open>T + 1\<close> seconds have
  elapsed.
\<close>

theorem watchdog_times_out_after_whole_seconds:
  "(0 \<le> timeout wd \<longrightarrow> \<not> is_timeout (update wd t0) t0) \<and>
   (t0 \<le> now \<longrightarrow>
     (is_timeout (update wd t0) now
        \<longleftrightarrow> timeout wd < (now - t0) div steady_clock_ticks_per_second) \<and>
     (is_timeout (update wd t0) now
        \<longleftrightarrow> (timeout wd + 1) * steady_clock_ticks_per_second \<le> now - t0))"
proof (intro conjI impI)
  assume "0 \<le> timeout wd"
  then show "\<not> is_timeout (update wd t0) t0" by (rule not_is_timeout_at_update)
next
  assume le: "t0 \<le> now"
  then show "is_timeout (update wd t0) now
      \<longleftrightarrow> (timeout wd + 1) * steady_clock_ticks_per_second \<le> now - t0"
    by (simp add: is_timeout_after_update steady_clock_ticks_per_second_def)
  from le have "0 \<le> now - t0" by simp
  then show "is_timeout (update wd t0) now
      \<longleftrightarrow> timeout wd < (now - t0) div steady_clock_ticks_per_second"
    by (simp add: is_timeout_def update_def duration_cast_seconds_nonneg
        steady_clock_ticks_per_second_def)
qed

theorem watchdog_times_out_after_whole_seconds_witness:
  "0 \<le> timeout (ConnectionWatchdog_new 60 0) \<and>
   \<not> is_timeout (update (ConnectionWatchdog_new 60 0) 5) 5 \<and>
   (5::int) \<le> 61000000005 \<and>
   is_timeout (update (ConnectionWatchdog_new 60 0) 5) 61000000005"
  using watchdog_times_out_after_whole_seconds
    [of "ConnectionWatchdog_new 60 0" 5 61000000005]
  by (simp add: ConnectionWatchdog_new_def steady_clock_ticks_per_second_def)

text \<open>
  The claim as stated fails: 60.5 seconds after the update the elapsed time exceeds the
  threshold of 60 seconds, and \<^verbatim>\<open>is_timeout()\<close> still answers false.
\<close>

theorem watchdog_exceeds_threshold_counterexample:
  "is_timeout (update (ConnectionWatchdog_new 60 0) 0) 60500000000
     \<noteq> (60 * steady_clock_ticks_per_second < 60500000000 - 0)"
  by (simp add: is_timeout_def update_def ConnectionWatchdog_new_def duration_cast_seconds_def
      steady_clock_ticks_per_second_def signed_divide_int_def)


section \<open>Properties of the address parser\<close>

lemma getline_field:
  assumes "\<not> eofbit ss" "\<not> failbit ss" "buf ss = x @ CHR '':'' # rest" "CHR '':'' \<notin> set x"
  shows "getline ss str CHR '':'' = (ss\<lparr>buf := rest\<rparr>, x)"
proof -
  have d: "dropWhile (\<lambda>c. c \<noteq> CHR '':'') (x @ CHR '':'' # rest) = CHR '':'' # rest"
    using assms(4) by (induction x) auto
  have t: "takeWhile (\<lambda>c. c \<noteq> CHR '':'') (x @ CHR '':'' # rest) = x"
    using assms(4) by (induction x) auto
  show ?thesis using assms(1-3) by (simp add: getline_def d t)
qed

lemma getline_last:
  assumes "\<not> eofbit ss" "\<not> failbit ss" "buf ss = x" "CHR '':'' \<notin> set x"
  shows "getline ss str CHR '':'' = (ss\<lparr>buf := [], eofbit := True, failbit := (x = [])\<rparr>, x)"
proof -
  have d: "dropWhile (\<lambda>c. c \<noteq> CHR '':'') x = []"
    using assms(4) by (induction x) auto
  show ?thesis using assms(1-3) by (simp add: getline_def d del: dropWhile_eq_Nil_conv)
qed

lemma parse_mac_address_loop_eof:
  assumes "eofbit ss" "i < 6"
  shows "parse_mac_address_loop i ss octet address
           = Inl (runtime_error ''Invalid MAC address format'')"
  using assms by (subst parse_mac_address_loop.simps) (simp add: getline_def)

lemma parse_mac_address_loop_done:
  "6 \<le> i \<Longrightarrow> parse_mac_address_loop i ss octet address = Inr address"
  by (subst parse_mac_address_loop.simps) simp

lemma stoi_Nil: "stoi [] = Inl (invalid_argument ''stoi'')"
  by (simp add: stoi_def strtol16_def)

lemma take_Suc_update:
  "i < length xs \<Longrightarrow> take (Suc i) (xs[i := w]) = take i xs @ [w]"
  by (simp add: take_Suc_conv_app_nth)

lemma parse_mac_address_loop_fields:
  assumes "os \<noteq> []" "\<forall>x\<in>set os. CHR '':'' \<notin> set x"
    and "buf ss = colon_join os" "\<not> eofbit ss" "\<not> failbit ss"
    and "i \<le> 6" "length address = 6" "6 - i \<le> length os"
    and "list_all2 (\<lambda>x v. stoi x = Inr v) (take (6 - i) os) vs"
  shows "parse_mac_address_loop i ss octet address
           = Inr (take i address @ map word_of_int vs)"
  using assms
proof (induction os arbitrary: i ss octet address vs)
  case Nil
  then show ?case by simp
next
  case (Cons x os')
  show ?case
  proof (cases "i = 6")
    case True
    with Cons.prems show ?thesis by (simp add: parse_mac_address_loop_done)
  next
    case False
    with Cons.prems have i: "i < 6" by simp
    then have "6 - i = Suc (5 - i)" by simp
    then have tk: "take (6 - i) (x # os') = x # take (5 - i) os'"
      by simp
    with Cons.prems(9) obtain v vs' where vs: "vs = v # vs'" and sx: "stoi x = Inr v"
      and rest: "list_all2 (\<lambda>x v. stoi x = Inr v) (take (5 - i) os') vs'"
      by (auto simp: list_all2_Cons1)
    from sx have xne: "x \<noteq> []" by (auto simp: stoi_Nil)
    from Cons.prems(2) have cx: "CHR '':'' \<notin> set x" by simp
    show ?thesis
    proof (cases os')
      case Nil
      with Cons.prems i have i5: "i = 5" by simp
      from Nil Cons.prems(3) have b: "buf ss = x" by simp
      have g: "getline ss octet CHR '':''
                 = (ss\<lparr>buf := [], eofbit := True, failbit := (x = [])\<rparr>, x)"
        using Cons.prems(4,5) b cx by (rule getline_last)
      from rest Nil have "vs' = []" by simp
      with vs i5 Cons.prems(7) show ?thesis
        by (subst parse_mac_address_loop.simps)
          (simp add: g xne sx parse_mac_address_loop_done upd_conv_take_nth_drop)
    next
      case (Cons y zs)
      with Cons.prems(3) have b: "buf ss = x @ CHR '':'' # colon_join os'" by simp
      have g: "getline ss octet CHR '':'' = (ss\<lparr>buf := colon_join os'\<rparr>, x)"
        using Cons.prems(4,5) b cx by (rule getline_field)
      have "parse_mac_address_loop (i + 1) (ss\<lparr>buf := colon_join os'\<rparr>) x
               (address[i := word_of_int v])
             = Inr (take (i + 1) (address[i := word_of_int v]) @ map word_of_int vs')"
      proof (rule Cons.IH)
        show "os' \<noteq> []" using Cons by simp
        show "\<forall>x\<in>set os'. CHR '':'' \<notin> set x" using Cons.prems(2) by simp
        show "list_all2 (\<lambda>x v. stoi x = Inr v) (take (6 - (i + 1)) os') vs'"
          using rest by simp
      qed (use Cons.prems i in auto)
      then show ?thesis
        using i Cons.prems(5,7) vs
        by (subst parse_mac_address_loop.simps) (simp add: g sx take_Suc_update)
    qed
  qed
qed

lemma parse_mac_address_loop_fails:
  assumes "\<forall>x\<in>set os. CHR '':'' \<notin> set x"
    and "buf ss = colon_join os" "\<not> eofbit ss" "\<not> failbit ss" "i < 6"
    and "length os < 6 - i \<or> (\<exists>k. k < 6 - i \<and> k < length os \<and> isl (stoi (os ! k)))"
  shows "isl (parse_mac_address_loop i ss octet address)"
  using assms
proof (induction os arbitrary: i ss octet address)
  case Nil
  then show ?case
    by (subst parse_mac_address_loop.simps) (simp add: getline_def)
next
  case (Cons x os')
  from Cons.prems(1) have cx: "CHR '':'' \<notin> set x" by simp
  show ?case
  proof (cases os')
    case Nil
    with Cons.prems(2) have b: "buf ss = x" by simp
    have g: "getline ss octet CHR '':''
               = (ss\<lparr>buf := [], eofbit := True, failbit := (x = [])\<rparr>, x)"
      using Cons.prems(3,4) b cx by (rule getline_last)
    show ?thesis
    proof (cases "stoi x")
      case (Inl e)
      then show ?thesis
        using Cons.prems(5) by (subst parse_mac_address_loop.simps) (simp add: g)
    next
      case (Inr v)
      with Nil Cons.prems(6) have "i < 5" by (auto simp: less_Suc_eq_0_disj)
      then show ?thesis
        using Cons.prems(5) Inr
        by (subst parse_mac_address_loop.simps) (simp add: g parse_mac_address_loop_eof)
    qed
  next
    case (Cons y zs)
    with Cons.prems(2) have b: "buf ss = x @ CHR '':'' # colon_join os'" by simp
    have g: "getline ss octet CHR '':'' = (ss\<lparr>buf := colon_join os'\<rparr>, x)"
      using Cons.prems(3,4) b cx by (rule getline_field)
    show ?thesis
    proof (cases "stoi x")
      case (Inl e)
      then show ?thesis
        using Cons.prems(4,5) by (subst parse_mac_address_loop.simps) (simp add: g)
    next
      case (Inr v)
      show ?thesis
      proof (cases "i = 5")
        case True
        then show ?thesis
          using Cons.prems(6) Inr by (auto simp: less_Suc_eq_0_disj)
      next
        case False
        with Cons.prems(5) have i5: "i < 5" by simp
        have "isl (parse_mac_address_loop (i + 1) (ss\<lparr>buf := colon_join os'\<rparr>) x a')" for a'
        proof (rule Cons.IH)
          show "\<forall>x\<in>set os'. CHR '':'' \<notin> set x" using Cons.prems(1) by simp
          show "length os' < 6 - (i + 1)
              \<or> (\<exists>k. k < 6 - (i + 1) \<and> k < length os' \<and> isl (stoi (os' ! k)))"
          proof -
            from Cons.prems(6) consider "length (x # os') < 6 - i"
              | k where "k < 6 - i" "k < length (x # os')" "isl (stoi ((x # os') ! k))"
              by blast
            then show ?thesis
            proof cases
              case 1
              then show ?thesis by auto
            next
              case 2
              with Inr obtain k' where "k = Suc k'" by (cases k) auto
              with 2 show ?thesis by auto
            qed
          qed
        qed (use Cons.prems i5 in auto)
        then show ?thesis
          using Cons.prems(4,5) Inr
          by (subst parse_mac_address_loop.simps) (simp add: g)
      qed
    qed
  qed
qed

lemma colon_split_not_Nil: "colon_split s \<noteq> []"
  by (induction s) (auto split: list.splits)

lemma colon_split_no_colon: "\<forall>f \<in> set (colon_split s). CHR '':'' \<notin> set f"
  by (induction s) (auto split: list.splits)

lemma colon_join_Cons_field:
  "fs \<noteq> [] \<Longrightarrow> colon_join ((c # f) # tl fs) = c # colon_join (f # tl fs)"
  by (cases "tl fs") auto

lemma colon_join_colon_split: "colon_join (colon_split s) = s"
proof (induction s)
  case Nil
  show ?case by simp
next
  case (Cons c cs)
  obtain f fs where sp: "colon_split cs = f # fs"
    using colon_split_not_Nil [of cs] by (cases "colon_split cs") auto
  show ?case
  proof (cases "c = CHR '':''")
    case True
    with Cons sp show ?thesis by simp
  next
    case False
    with Cons sp show ?thesis by (cases fs) auto
  qed
qed

lemma is_hex_hex_digit: "is_hex c \<Longrightarrow> hex_digit c = Some (hex_char_value c)"
  unfolding is_hex_def
  apply simp
  apply (elim disjE)
  apply (simp_all add: hex_digit_def hex_char_value_def)
  done

lemma is_hex_not_space:
  "is_hex c \<Longrightarrow> \<not> isspace c \<and> c \<noteq> CHR ''-'' \<and> c \<noteq> CHR ''+'' \<and> c \<noteq> CHR '':''"
  unfolding is_hex_def
  apply simp
  apply (elim disjE)
  apply (simp_all add: isspace_def)
  done

lemma hex_char_value_le: "is_hex c \<Longrightarrow> hex_char_value c \<le> 15"
  unfolding is_hex_def
  apply simp
  apply (elim disjE)
  apply (simp_all add: hex_char_value_def)
  done

lemma of_char_nat_eq_iff: "(of_char c :: nat) = of_char d \<longleftrightarrow> c = d"
  by (rule of_char_eq_iff)

lemma hex_digit_None: "\<not> is_hex c \<Longrightarrow> hex_digit c = None"
proof -
  assume nh: "\<not> is_hex c"
  define n where "n = (of_char c :: nat)"
  show ?thesis
  proof (rule ccontr)
    assume "hex_digit c \<noteq> None"
    then have "(48 \<le> n \<and> n \<le> 57) \<or> (97 \<le> n \<and> n \<le> 102) \<or> (65 \<le> n \<and> n \<le> 70)"
      by (simp add: hex_digit_def Let_def n_def split: if_splits)
    then have "n = 48 \<or> n = 49 \<or> n = 50 \<or> n = 51 \<or> n = 52 \<or> n = 53 \<or> n = 54 \<or> n = 55
        \<or> n = 56 \<or> n = 57 \<or> n = 97 \<or> n = 98 \<or> n = 99 \<or> n = 100 \<or> n = 101 \<or> n = 102
        \<or> n = 65 \<or> n = 66 \<or> n = 67 \<or> n = 68 \<or> n = 69 \<or> n = 70"
      by arith
    then have "is_hex c"
      unfolding is_hex_def n_def
      by (elim disjE) (simp_all add: of_char_nat_eq_iff [symmetric])
    with nh show False by simp
  qed
qed

lemma hex_digit_eq_None_iff: "hex_digit c = None \<longleftrightarrow> \<not> is_hex c"
  using hex_digit_None [of c] is_hex_hex_digit [of c] by auto

lemma stoi_no_conversion:
  assumes "f = [] \<or> (\<not> is_hex (hd f) \<and> \<not> isspace (hd f) \<and> hd f \<noteq> CHR ''-'' \<and> hd f \<noteq> CHR ''+'')"
  shows "stoi f = Inl (invalid_argument ''stoi'')"
proof (cases f)
  case Nil
  then show ?thesis by (simp add: stoi_def strtol16_def)
next
  case (Cons c cs)
  with assms have c: "\<not> is_hex c" "\<not> isspace c" "c \<noteq> CHR ''-''" "c \<noteq> CHR ''+''" by auto
  have z: "is_hex CHR ''0''" by (simp add: is_hex_def)
  with c(1) have c0: "c \<noteq> CHR ''0''" by auto
  from c(1) have hn: "hex_digit c = None" by (rule hex_digit_None)
  have "dropWhile isspace f = f" using Cons c(2) by simp
  with c c0 hn Cons have "strtol16 f = None"
    by (cases cs; cases "tl cs") (simp_all add: strtol16_def)
  then show ?thesis by (simp add: stoi_def)
qed

lemma digits16_hex_octet:
  assumes "hex_octet s"
  shows "digits16 0 s = octet_value s" and "octet_value s \<le> 255"
proof -
  from assms consider a where "s = [a]" "is_hex a" | a b where "s = [a, b]" "is_hex a" "is_hex b"
    by (cases s rule: list.exhaust; cases "tl s") (auto simp: hex_octet_def)
  then have "digits16 0 s = octet_value s \<and> octet_value s \<le> 255"
  proof cases
    case 1
    then show ?thesis
      using hex_char_value_le [of a] by (simp add: is_hex_hex_digit octet_value_def)
  next
    case 2
    then show ?thesis
      using hex_char_value_le [of a] hex_char_value_le [of b]
      by (simp add: is_hex_hex_digit octet_value_def)
  qed
  then show "digits16 0 s = octet_value s" and "octet_value s \<le> 255" by simp_all
qed

lemma stoi_hex_octet:
  assumes "hex_octet s"
  shows "stoi s = Inr (int (octet_value s))"
proof -
  from assms obtain c cs where s: "s = c # cs" and c: "is_hex c" and l: "length cs \<le> 1"
    by (cases s) (auto simp: hex_octet_def)
  have "strtol16 s = Some (int (digits16 0 s))"
    using s c l is_hex_not_space [of c]
    by (cases cs; cases "tl cs") (simp_all add: strtol16_def is_hex_hex_digit)
  then show ?thesis
    using digits16_hex_octet [OF assms]
    by (simp add: stoi_def INT_MIN_def INT_MAX_def)
qed

lemma hex_octet_no_colon: "hex_octet s \<Longrightarrow> CHR '':'' \<notin> set s"
  using is_hex_not_space by (auto simp: hex_octet_def list_all_iff)


section \<open>The parser on strings, and the exit on a bad address\<close>


lemma parse_mac_address_hex_octets:
  assumes "length os = 6" "list_all hex_octet os"
  shows "parse_mac_address (colon_join os) = Inr (map (\<lambda>x. of_nat (octet_value x)) os)"
proof -
  from assms(1) have ne: "os \<noteq> []" by auto
  have nc: "\<forall>x\<in>set os. CHR '':'' \<notin> set x"
    using assms(2) hex_octet_no_colon by (auto simp: list_all_iff)
  have l2: "list_all2 (\<lambda>x v. stoi x = Inr v) (take (6 - 0) os) (map (\<lambda>x. int (octet_value x)) os)"
    using assms by (auto simp: list_all2_conv_all_nth list_all_iff stoi_hex_octet)
  have "parse_mac_address_loop 0 (istringstream_new (colon_join os)) [] (replicate 6 0)
          = Inr (take 0 (replicate 6 0) @ map word_of_int (map (\<lambda>x. int (octet_value x)) os))"
    by (rule parse_mac_address_loop_fields [OF ne nc _ _ _ _ _ _ l2])
      (simp_all add: istringstream_new_def assms(1))
  then show ?thesis
    by (simp add: parse_mac_address_def comp_def)
qed

lemma parse_mac_address_fails:
  assumes "length (colon_split s) < 6
      \<or> (\<exists>k. k < 6 \<and> k < length (colon_split s) \<and> isl (stoi (colon_split s ! k)))"
  shows "isl (parse_mac_address s)"
  unfolding parse_mac_address_def
  by (rule parse_mac_address_loop_fails [where os = "colon_split s"])
    (use assms in \<open>simp_all add: istringstream_new_def colon_join_colon_split colon_split_no_colon\<close>)

lemma MyoLinux_main_bad_address:
  assumes "3 \<le> length argv" "parse_mac_address (argv ! 2) = Inl e"
  shows "MyoLinux_main fuel pl argv w
           = Some (Exit 1, log_message (''Error parsing MAC address: '' @ what e)
                (log_message ''Starting Myo data collection application'' w))"
  using assms by (simp add: MyoLinux_main_def Let_def)

lemma parse_examples:
  "parse_mac_address ''00:11:22:33:44:55'' = Inr [0x00, 0x11, 0x22, 0x33, 0x44, 0x55]"
  "parse_mac_address ''00:11:22:33:44:55:66'' = Inr [0x00, 0x11, 0x22, 0x33, 0x44, 0x55]"
  "parse_mac_address ''0g:11:22:33:44:55'' = Inr [0x00, 0x11, 0x22, 0x33, 0x44, 0x55]"
  "parse_mac_address ''00:11:22:33:44'' = Inl (runtime_error ''Invalid MAC address format'')"
  "parse_mac_address ''00:11:zz:33:44:55'' = Inl (invalid_argument ''stoi'')"
  by code_simp+

lemma colon_split_examples:
  "colon_split ''00:11:22:33:44:55:66'' = [''00'', ''11'', ''22'', ''33'', ''44'', ''55'', ''66'']"
  "colon_split ''00:11:22:33:44'' = [''00'', ''11'', ''22'', ''33'', ''44'']"
  "colon_split ''00:11:zz:33:44:55'' = [''00'', ''11'', ''zz'', ''33'', ''44'', ''55'']"
  by simp_all

text \<open>
  What the parser does guarantee: six fields of one or two hexadecimal digits parse to
  their bytes; a string with fewer than six fields fails, and so does a string one of
  whose first six fields \<^verbatim>\<open>std::stoi\<close> refuses, as it does a field that is empty or begins
  with a character that is neither a hexadecimal digit nor white space nor a sign; and
  whenever the parse fails the program logs the error and exits with status 1.
\<close>

lemma parse_mac_address_six_fields:
  "(length os = 6 \<and> list_all hex_octet os \<longrightarrow>
      parse_mac_address (colon_join os) = Inr (map (\<lambda>x. of_nat (octet_value x)) os)) \<and>
   (length (colon_split s) < 6 \<longrightarrow> isl (parse_mac_address s)) \<and>
   (k < 6 \<and> k < length (colon_split s) \<and> isl (stoi (colon_split s ! k)) \<longrightarrow>
      isl (parse_mac_address s)) \<and>
   (f = [] \<or> (\<not> is_hex (hd f) \<and> \<not> isspace (hd f) \<and> hd f \<noteq> CHR ''-'' \<and> hd f \<noteq> CHR ''+'') \<longrightarrow>
      stoi f = Inl (invalid_argument ''stoi'')) \<and>
   (3 \<le> length argv \<and> parse_mac_address (argv ! 2) = Inl e \<longrightarrow>
      MyoLinux_main fuel pl argv w
        = Some (Exit 1, log_message (''Error parsing MAC address: '' @ what e)
             (log_message ''Starting Myo data collection application'' w)))"
  using parse_mac_address_hex_octets [of os] parse_mac_address_fails [of s]
    stoi_no_conversion [of f] MyoLinux_main_bad_address [of argv e fuel pl w]
  by blast

text \<open>The loop stops reading after the sixth field: what follows it is never looked at.\<close>

lemma parse_ignores_later_fields:
  "parse_mac_address (''00:11:22:33:44:55:'' @ later) = Inr [0x00, 0x11, 0x22, 0x33, 0x44, 0x55]"
  by (simp add: parse_mac_address_def parse_mac_address_loop.simps istringstream_new_def
      getline_def stoi_def strtol16_def isspace_def hex_digit_def INT_MIN_def INT_MAX_def Let_def
      eval_nat_numeral)

section \<open>Properties of the steps and of the reconnection routine\<close>

lemmas prog_defs = returnE_def throwE_def bindE_def thenE_def liftE_def catchE_def
  client_call_def connected_def connect_def connect_default_def disconnect_def setSleepMode_def
  setMode_def onEmg_def onImu_def listen_def next_answer_def read_stop_def sleep_for_def
  read_clock_def emit_def log_message_def signal_handler_def Let_def

lemma bindE_cases [consumes 1, case_names throw cont]:
  assumes "bindE m f w = (r, w2)"
  obtains e where "m w = (Inl e, w2)" "r = Inl e"
    | x w1 where "m w = (Inr x, w1)" "f x w1 = (r, w2)"
  using assms by (auto simp: bindE_def split: prod.splits sum.splits)

lemma thenE_cases [consumes 1, case_names throw cont]:
  assumes "thenE m k w = (r, w2)"
  obtains e where "m w = (Inl e, w2)" "r = Inl e"
    | x w1 where "m w = (Inr x, w1)" "k w1 = (r, w2)"
  using assms unfolding thenE_def by (rule bindE_cases)

lemma returnE_eq: "returnE x w = (r, w1) \<longleftrightarrow> r = Inr x \<and> w1 = w"
  by (auto simp: returnE_def)

lemma next_answer_trace: "next_answer w = (a, w1) \<Longrightarrow> trace w1 = trace w"
  by (auto simp: next_answer_def signal_handler_def Let_def split: disposition.splits if_splits)

lemma client_call_step:
  "client_call c w = (r, w1) \<Longrightarrow> trace w1 = trace w @ [Call c (outcome_of r)]"
  by (auto simp: client_call_def emit_def split: prod.splits option.splits
      dest: next_answer_trace)

lemma client_unit_step:
  assumes "bindE (client_call c) (\<lambda>a. returnE (g a)) w = (r, w1)"
  shows "trace w1 = trace w @ [Call c (outcome_of r)]"
  using assms
  by (elim bindE_cases) (auto simp: returnE_eq dest: client_call_step)

lemma connected_step:
  "connected w = (r, w1) \<Longrightarrow> trace w1 = trace w @ [Call CConnected (outcome_of r)]"
  unfolding connected_def by (rule client_unit_step)

lemma connect_step:
  "connect address t w = (r, w1) \<Longrightarrow> trace w1 = trace w @ [Call (CConnect address t) (outcome_of r)]"
  unfolding connect_def by (rule client_unit_step)

lemma connect_default_step:
  "connect_default w = (r, w1) \<Longrightarrow> trace w1 = trace w @ [Call CConnectDefault (outcome_of r)]"
  unfolding connect_default_def by (rule client_unit_step)

lemma disconnect_step:
  "disconnect w = (r, w1) \<Longrightarrow> trace w1 = trace w @ [Call CDisconnect (outcome_of r)]"
  unfolding disconnect_def by (rule client_unit_step)

lemma setSleepMode_step:
  "setSleepMode m w = (r, w1) \<Longrightarrow> trace w1 = trace w @ [Call (CSetSleepMode m) (outcome_of r)]"
  unfolding setSleepMode_def by (rule client_unit_step)

lemma setMode_step:
  "setMode e i c w = (r, w1) \<Longrightarrow> trace w1 = trace w @ [Call (CSetMode e i c) (outcome_of r)]"
  unfolding setMode_def by (rule client_unit_step)

lemma log_message_trace: "trace (log_message m w) = trace w @ [Log m]"
  by (simp add: log_message_def emit_def)

lemma sleep_for_trace: "trace (sleep_for n w) = trace w @ [SleepFor n]"
  by (auto simp: sleep_for_def emit_def split: prod.splits dest: next_answer_trace)

lemma liftE_eq: "liftE f w = (r, w1) \<longleftrightarrow> r = Inr () \<and> w1 = f w"
  by (auto simp: liftE_def)

lemmas step_traces = connected_step connect_step connect_default_step disconnect_step
  setSleepMode_step setMode_step

lemma reconnect_try_returns:
  assumes "reconnect_try address w = (Inr True, w1)"
  shows "trace w1 = trace w @
           [Call CConnected Returned,
            Log ''Trying to reconnect even though we're connected ...'',
            Call (CConnect address connection_timeout) Returned,
            Call (CSetSleepMode NeverSleep) Returned,
            Call (CSetMode SendEmg SendData Disabled) Returned,
            Log ''Reconnection successful!'']"
  using assms unfolding reconnect_try_def
  by (auto elim!: bindE_cases thenE_cases dest!: step_traces
      simp: liftE_eq returnE_eq log_message_trace sleep_for_trace split: if_splits)

lemma to_string_bool: "to_string 0 = ''0''" "to_string 1 = ''1''"
  by (simp_all add: to_string_def digit_char_def decimal.simps)

lemma reconnect_try_falls_through:
  assumes "reconnect_try address w = (Inr False, w1)"
  shows "trace w1 = trace w @
           [Call CConnected Returned,
            Log ''Attempting to reconnect...'',
            Call CConnected Returned,
            Log ''0'',
            Call CDisconnect Returned,
            SleepFor 1000,
            Call (CConnect address connection_timeout) Returned]
       \<or> trace w1 = trace w @
           [Call CConnected Returned,
            Log ''Attempting to reconnect...'',
            Call CConnected Returned,
            Log ''1'',
            Call CDisconnect Returned,
            SleepFor 1000,
            Call (CConnect address connection_timeout) Returned]"
  using assms unfolding reconnect_try_def
  by (auto elim!: bindE_cases thenE_cases dest!: step_traces
      simp: liftE_eq returnE_eq log_message_trace sleep_for_trace to_string_bool
      split: if_splits)

lemma reconnect_try_throws_drop:
  assumes "reconnect_try address w = (Inl e, w1)"
  shows "take (length (trace w)) (trace w1) = trace w \<and>
         drop (length (trace w)) (trace w1) \<noteq> [] \<and>
         (\<exists>c. last (drop (length (trace w)) (trace w1)) = Call c (Threw e)) \<and>
         connect_attempts (drop (length (trace w)) (trace w1)) \<le> 1"
  using assms unfolding reconnect_try_def
  by (auto elim!: bindE_cases thenE_cases dest!: step_traces
      simp: liftE_eq returnE_eq log_message_trace sleep_for_trace connect_attempts_def
      split: if_splits)

lemma reconnect_try_throws:
  assumes "reconnect_try address w = (Inl e, w1)"
  shows "\<exists>new c. trace w1 = trace w @ new \<and> new \<noteq> [] \<and> last new = Call c (Threw e) \<and>
           connect_attempts new \<le> 1"
proof -
  let ?new = "drop (length (trace w)) (trace w1)"
  from reconnect_try_throws_drop [OF assms]
  have "take (length (trace w)) (trace w1) = trace w" "?new \<noteq> []"
    "\<exists>c. last ?new = Call c (Threw e)" "connect_attempts ?new \<le> 1"
    by blast+
  moreover from this(1) have "trace w1 = trace w @ ?new"
    by (metis append_take_drop_id)
  ultimately show ?thesis by blast
qed

lemma to_string_attempts: "to_string (int MAX_RECONNECT_ATTEMPTS) = ''5''"
  by (simp add: to_string_def MAX_RECONNECT_ATTEMPTS_def digit_char_def decimal.simps)

lemma to_string_delay: "to_string (int (RECONNECT_DELAY_MS div 1000)) = ''10''"
  by (simp add: to_string_def RECONNECT_DELAY_MS_def digit_char_def decimal.simps)

lemma reconnect_iteration_cases [consumes 1, case_names returns falls_through caught]:
  assumes "catchE (reconnect_try address) reconnect_catch w = (b, w1)"
  obtains "b" "reconnect_try address w = (Inr True, w1)"
    | "\<not> b" "reconnect_try address w = (Inr False, w1)"
    | e w0 where "\<not> b" "reconnect_try address w = (Inl e, w0)"
        "w1 = log_message (''Reconnection error: '' @ what e) w0"
  using assms
  by (auto simp: catchE_def reconnect_catch_def split: prod.splits sum.splits)

lemma reconnect_iteration_trace:
  assumes "catchE (reconnect_try address) reconnect_catch w = (b, w1)"
  shows "\<exists>new. trace w1 = trace w @ new \<and> connect_attempts new \<le> 1"
  using assms
proof (cases rule: reconnect_iteration_cases)
  case returns
  then show ?thesis
    by (auto dest!: reconnect_try_returns simp: connect_attempts_def)
next
  case falls_through
  then show ?thesis
    by (auto dest!: reconnect_try_falls_through simp: connect_attempts_def)
next
  case (caught e w0)
  from reconnect_try_throws [OF caught(2)] obtain new0
    where "trace w0 = trace w @ new0" and "connect_attempts new0 \<le> 1"
    by blast
  with caught(3) show ?thesis
    by (auto simp: log_message_trace connect_attempts_def)
qed


lemma reconnect_loop_exhausted:
  "\<not> n < MAX_RECONNECT_ATTEMPTS \<Longrightarrow>
     reconnect_loop address n w
       = ((Inl (runtime_error ''Unable to reconnect after 5 attempts.''), n), w)"
  apply (subst reconnect_loop.simps)
  apply (simp only: if_False to_string_attempts)
  apply simp
  done

lemma reconnect_loop_returns:
  "n < MAX_RECONNECT_ATTEMPTS \<Longrightarrow>
   catchE (reconnect_try address) reconnect_catch w = (True, w1) \<Longrightarrow>
     reconnect_loop address n w = ((Inr (), n), w1)"
  apply (subst reconnect_loop.simps)
  apply (simp only: if_True prod.case bool.case)
  done

lemma reconnect_loop_retries:
  "n < MAX_RECONNECT_ATTEMPTS \<Longrightarrow>
   catchE (reconnect_try address) reconnect_catch w = (False, w1) \<Longrightarrow>
     reconnect_loop address n w
       = reconnect_loop address (n + 1)
           (sleep_for RECONNECT_DELAY_MS
             (log_message ''Reconnection failed. Trying again in 10 seconds...'' w1))"
  apply (subst reconnect_loop.simps)
  apply (simp only: if_True prod.case bool.case to_string_delay)
  apply simp
  done

lemma reconnect_loop_invariant:
  assumes "reconnect_loop address n w = ((r, n'), w')" "n \<le> MAX_RECONNECT_ATTEMPTS"
  shows "n \<le> n' \<and> n' \<le> MAX_RECONNECT_ATTEMPTS \<and>
         (r = Inr () \<and> n' < MAX_RECONNECT_ATTEMPTS
          \<or> r = Inl (runtime_error ''Unable to reconnect after 5 attempts.'')
              \<and> n' = MAX_RECONNECT_ATTEMPTS) \<and>
         (\<exists>new. trace w' = trace w @ new \<and>
                connect_attempts new \<le> MAX_RECONNECT_ATTEMPTS - n)"
  using assms
proof (induction address n w rule: reconnect_loop.induct)
  case (1 address n w)
  show ?case
  proof (cases "n < MAX_RECONNECT_ATTEMPTS")
    case False
    with "1.prems" have "n = MAX_RECONNECT_ATTEMPTS" by simp
    with "1.prems"(1) show ?thesis
      by (simp add: reconnect_loop_exhausted connect_attempts_def)
  next
    case lt: True
    obtain b w1 where it: "catchE (reconnect_try address) reconnect_catch w = (b, w1)"
      by (cases "catchE (reconnect_try address) reconnect_catch w") auto
    from reconnect_iteration_trace [OF it] obtain new1
      where t1: "trace w1 = trace w @ new1" and c1: "connect_attempts new1 \<le> 1"
      by blast
    show ?thesis
    proof (cases b)
      case True
      with it lt "1.prems" have "r = Inr ()" "n' = n" "w' = w1"
        by (simp_all add: reconnect_loop_returns)
      with lt t1 c1 show ?thesis by auto
    next
      case False
      let ?w2 = "sleep_for RECONNECT_DELAY_MS
          (log_message (''Reconnection failed. Trying again in ''
             @ to_string (int (RECONNECT_DELAY_MS div 1000)) @ '' seconds...'') w1)"
      have step: "reconnect_loop address n w = reconnect_loop address (n + 1) ?w2"
        using False it lt
        by (simp only: reconnect_loop_retries to_string_delay append.simps)
      have t2: "trace ?w2 = trace w1
          @ [Log ''Reconnection failed. Trying again in 10 seconds...'',
             SleepFor RECONNECT_DELAY_MS]"
        by (simp only: sleep_for_trace log_message_trace to_string_delay append.simps
            append_assoc)
      have ih: "n + 1 \<le> n' \<and> n' \<le> MAX_RECONNECT_ATTEMPTS \<and>
         (r = Inr () \<and> n' < MAX_RECONNECT_ATTEMPTS
          \<or> r = Inl (runtime_error ''Unable to reconnect after 5 attempts.'')
              \<and> n' = MAX_RECONNECT_ATTEMPTS) \<and>
         (\<exists>new. trace w' = trace ?w2 @ new \<and>
                connect_attempts new \<le> MAX_RECONNECT_ATTEMPTS - (n + 1))"
      proof (rule "1.IH" [OF lt it [symmetric]])
        show "b = False" using False by simp
        show "reconnect_loop address (n + 1) ?w2 = ((r, n'), w')"
          using "1.prems"(1) step by simp
        show "n + 1 \<le> MAX_RECONNECT_ATTEMPTS" using lt by simp
      qed
      then obtain new where n: "trace w' = trace ?w2 @ new"
        "connect_attempts new \<le> MAX_RECONNECT_ATTEMPTS - (n + 1)" by blast
      let ?all = "new1 @ [Log ''Reconnection failed. Trying again in 10 seconds...'',
          SleepFor RECONNECT_DELAY_MS] @ new"
      have "trace w' = trace w @ ?all"
        using n(1) t1 t2 by simp
      moreover have "connect_attempts ?all \<le> MAX_RECONNECT_ATTEMPTS - n"
        using n(2) c1 lt by (simp add: connect_attempts_def)
      ultimately have "\<exists>new. trace w' = trace w @ new \<and>
                connect_attempts new \<le> MAX_RECONNECT_ATTEMPTS - n" by blast
      with ih show ?thesis by simp
    qed
  qed
qed

lemma reconnect_loop_induct_cases [consumes 1, case_names exhausted returns retries]:
  assumes res: "reconnect_loop address n w = res"
    and exhausted: "\<And>n w. \<not> n < MAX_RECONNECT_ATTEMPTS \<Longrightarrow>
          P n w ((Inl (runtime_error ''Unable to reconnect after 5 attempts.''), n), w)"
    and returns: "\<And>n w w1. n < MAX_RECONNECT_ATTEMPTS \<Longrightarrow>
          catchE (reconnect_try address) reconnect_catch w = (True, w1) \<Longrightarrow>
          P n w ((Inr (), n), w1)"
    and retries: "\<And>n w w1 res. n < MAX_RECONNECT_ATTEMPTS \<Longrightarrow>
          catchE (reconnect_try address) reconnect_catch w = (False, w1) \<Longrightarrow>
          P (n + 1) (sleep_for RECONNECT_DELAY_MS
                (log_message ''Reconnection failed. Trying again in 10 seconds...'' w1)) res \<Longrightarrow>
          P n w res"
  shows "P n w res"
  using res
proof (induction "MAX_RECONNECT_ATTEMPTS - n" arbitrary: n w res)
  case 0
  then have "\<not> n < MAX_RECONNECT_ATTEMPTS" by simp
  with "0.prems" exhausted [of n w] show ?case
    by (simp add: reconnect_loop_exhausted)
next
  case (Suc k)
  then have lt: "n < MAX_RECONNECT_ATTEMPTS" by simp
  obtain b w1 where it: "catchE (reconnect_try address) reconnect_catch w = (b, w1)"
    by (cases "catchE (reconnect_try address) reconnect_catch w") auto
  show ?case
  proof (cases b)
    case True
    with it lt Suc.prems returns [of n w w1] show ?thesis
      by (simp add: reconnect_loop_returns)
  next
    case False
    let ?w2 = "sleep_for RECONNECT_DELAY_MS
        (log_message ''Reconnection failed. Trying again in 10 seconds...'' w1)"
    from False it lt have step: "reconnect_loop address n w = reconnect_loop address (n + 1) ?w2"
      by (simp add: reconnect_loop_retries)
    have "P (n + 1) ?w2 res"
    proof (rule Suc.hyps(1))
      show "k = MAX_RECONNECT_ATTEMPTS - (n + 1)" using Suc.hyps(2) by simp
      show "reconnect_loop address (n + 1) ?w2 = res" using step Suc.prems by simp
    qed
    with False it lt show ?thesis by (auto intro: retries)
  qed
qed

lemma reconnect_loop_success_suffix:
  assumes "reconnect_loop address n w = ((Inr (), n'), w')"
  shows "\<exists>pre. trace w' = trace w @ pre @
           [Call CConnected Returned,
            Log ''Trying to reconnect even though we're connected ...'',
            Call (CConnect address connection_timeout) Returned,
            Call (CSetSleepMode NeverSleep) Returned,
            Call (CSetMode SendEmg SendData Disabled) Returned,
            Log ''Reconnection successful!'']"
proof -
  let ?suffix = "[Call CConnected Returned,
            Log ''Trying to reconnect even though we're connected ...'',
            Call (CConnect address connection_timeout) Returned,
            Call (CSetSleepMode NeverSleep) Returned,
            Call (CSetMode SendEmg SendData Disabled) Returned,
            Log ''Reconnection successful!'']"
  define P where "P = (\<lambda>(n::nat) (w::'a world) (res :: ((exception + unit) \<times> nat) \<times> 'a world).
      fst (fst res) = Inr () \<longrightarrow> (\<exists>pre. trace (snd res) = trace w @ pre @ ?suffix))"
  from assms have "P n w ((Inr (), n'), w')"
  proof (induction rule: reconnect_loop_induct_cases)
    case (exhausted n w)
    then show ?case by (simp add: P_def)
  next
    case (returns n w w1)
    from returns(2) have "reconnect_try address w = (Inr True, w1)"
      by (cases rule: reconnect_iteration_cases) auto
    then have "trace w1 = trace w @ [] @ ?suffix"
      by (simp add: reconnect_try_returns)
    then show ?case unfolding P_def by (auto simp del: append.simps)
  next
    case (retries n w w1 res)
    from reconnect_iteration_trace [OF retries(2)] obtain new1
      where t1: "trace w1 = trace w @ new1" by blast
    show ?case unfolding P_def
    proof
      assume "fst (fst res) = Inr ()"
      with retries(3) obtain pre where "trace (snd res)
          = trace (sleep_for RECONNECT_DELAY_MS
              (log_message ''Reconnection failed. Trying again in 10 seconds...'' w1)) @ pre @ ?suffix"
        unfolding P_def by blast
      then have "trace (snd res) = trace w @ (new1 @ [Log ''Reconnection failed. Trying again in 10 seconds...'',
          SleepFor RECONNECT_DELAY_MS] @ pre) @ ?suffix"
        by (simp add: sleep_for_trace log_message_trace t1)
      then show "\<exists>pre. trace (snd res) = trace w @ pre @ ?suffix" by blast
    qed
  qed
  then show ?thesis by (simp add: P_def)
qed



lemma reconnect_try_last_event:
  assumes "reconnect_try address w = (r, w1)"
  shows "(r = Inr True \<longrightarrow> last (trace w1) = Log ''Reconnection successful!'') \<and>
         (r = Inr False \<longrightarrow> last (trace w1) = Call (CConnect address connection_timeout) Returned) \<and>
         (\<forall>e. r = Inl e \<longrightarrow> (\<exists>c. last (trace w1) = Call c (Threw e)))"
proof (intro conjI impI allI)
  assume "r = Inr True"
  with assms show "last (trace w1) = Log ''Reconnection successful!''"
    by (simp add: reconnect_try_returns)
next
  assume "r = Inr False"
  with assms reconnect_try_falls_through [of address w w1]
  show "last (trace w1) = Call (CConnect address connection_timeout) Returned"
    by auto
next
  fix e assume "r = Inl e"
  with assms reconnect_try_throws [of address w e w1]
  show "\<exists>c. last (trace w1) = Call c (Threw e)"
    by auto
qed

lemma reconnect_try_result_cases:
  "r = Inr True \<or> r = Inr False \<or> (\<exists>e. r = Inl e)" for r :: "exception + bool"
  by (cases r) auto


section \<open>Example runs of the reconnection routine\<close>

lemmas eval_defs = reconnect_def reconnect_try_def reconnect_catch_def prog_defs
  initial_world_def script_def ok_def no_def fails_def MAX_RECONNECT_ATTEMPTS_def
  RECONNECT_DELAY_MS_def connection_timeout_def to_string_def digit_char_def decimal.simps
  connect_attempts_def example_address_def device_off_def device_off_5_def stopped_world_def
  failed_iteration_def

lemma reconnect_device_off:
  "reconnect_loop example_address 0 (stopped_world :: 'f world)
     = ((Inl (runtime_error ''Unable to reconnect after 5 attempts.''), 5),
        stopped_world\<lparr>tick := 30,
          trace := failed_iteration example_address @ failed_iteration example_address
            @ failed_iteration example_address @ failed_iteration example_address
            @ failed_iteration example_address\<rparr>)"
  by (simp add: eval_defs reconnect_loop.simps)


section \<open>Properties of the two programs\<close>


lemmas main_defs = prog_defs initial_world_def script_def ok_def no_def fails_def interrupt_def
  to_string_def digit_char_def decimal.simps example_platform_def
  MyoSensor_main_def MyoSensor_try_def MyoSensor_catch_def MyoSensor_shutdown_def
  MyoSensor_connect_try_def MyoSensor_connect_catch_def MyoSensor_connect_loop.simps
  main_MAX_RECONNECT_ATTEMPTS_def main_RECONNECT_DELAY_MS_def
  ensure_directory_def start_session_def fs_call_def open_serial_def watchdog_new_def
  path_append_def program_name_def record_episode_def configure_def open_append_def
  file_write_def file_close_def content_def steady_clock_now_def csv_header_def endl_def
  acquisition_body_def update_watchdog_def watchdog_timed_out_def write_row_def
  ConnectionWatchdog_new_def

lemma next_answer_stop: "stop w \<Longrightarrow> stop (snd (next_answer w))"
  by (simp add: next_answer_def signal_handler_def Let_def split: disposition.splits)

lemma read_stop_set: "stop w \<Longrightarrow> fst (read_stop w)"
  using next_answer_stop [of w] by (cases "next_answer w") (simp add: read_stop_def)

lemma MyoLinux_shutdown_exit: "fst (MyoLinux_shutdown w) = Exit 0"
  by (simp add: MyoLinux_shutdown_def split: prod.splits sum.splits)

lemma MyoLinux_loop_stops:
  "stop w \<Longrightarrow>
     MyoLinux_loop (Suc fuel) pl output_directory mac_address_str address w
       = Some (MyoLinux_shutdown (snd (read_stop w)))"
  using read_stop_set [of w] by (cases "read_stop w") auto

lemma MyoSensor_loop_stops:
  "stop w \<Longrightarrow>
     MyoSensor_loop (Suc fuel) pl output_directory w
       = Some (MyoSensor_shutdown (snd (read_stop w)))"
  using read_stop_set [of w] by (cases "read_stop w") auto

lemma to_string_main_attempts: "to_string (int main_MAX_RECONNECT_ATTEMPTS) = ''5''"
  by (simp add: to_string_def main_MAX_RECONNECT_ATTEMPTS_def digit_char_def decimal.simps)

lemma reconnect_throws_exhaustion:
  assumes "reconnect address w = (Inl e, w')"
  shows "e = runtime_error ''Unable to reconnect after 5 attempts.''"
proof -
  obtain n where "reconnect_loop address 0 w = ((Inl e, n), w')"
    using assms by (auto simp: reconnect_def split: prod.splits)
  from reconnect_loop_invariant [OF this] show ?thesis by simp
qed



lemma MyoLinux_loop_caught:
  assumes "read_stop w = (False, w1)"
    and "MyoLinux_try fuel pl output_directory mac_address_str address w1 = Some (Inl err, w2)"
  shows "MyoLinux_loop (Suc fuel) pl output_directory mac_address_str address w
           = MyoLinux_loop fuel pl output_directory mac_address_str address
               (MyoLinux_catch address err w2)"
  using assms by simp

lemma MyoSensor_loop_gives_up:
  assumes "read_stop v = (False, v1)"
    and "MyoSensor_connect_loop 0 v1 = ((Inr (), n), v2)"
    and "connected v2 = (Inr False, v3)"
  shows "MyoSensor_loop (Suc fuel) pl output_directory v
           = Some (Exit 1,
               log_message ''Failed to connect to Myo after 5 attempts. Exiting.'' v3)"
  using assms by (simp add: MyoSensor_try_def to_string_main_attempts)


section \<open>The retry loop of \<^verbatim>\<open>MyoSensor/main.cpp\<close>\<close>

lemma to_string_main_delay: "to_string (int (main_RECONNECT_DELAY_MS div 1000)) = ''5''"
  by (simp add: to_string_def main_RECONNECT_DELAY_MS_def digit_char_def decimal.simps)

lemma MyoSensor_connect_try_breaks:
  assumes "MyoSensor_connect_try w = (Inr True, w1)"
  shows "trace w1 = trace w @
           [Log ''Attempting to connect to Myo...'',
            Call CConnectDefault Returned,
            Call CConnected Returned,
            Log ''Successfully connected to Myo!'']"
  using assms unfolding MyoSensor_connect_try_def
  by (auto elim!: bindE_cases thenE_cases dest!: step_traces
      simp: liftE_eq returnE_eq log_message_trace split: if_splits)

lemma MyoSensor_connect_try_falls_through:
  assumes "MyoSensor_connect_try w = (Inr False, w1)"
  shows "trace w1 = trace w @
           [Log ''Attempting to connect to Myo...'',
            Call CConnectDefault Returned,
            Call CConnected Returned]"
  using assms unfolding MyoSensor_connect_try_def
  by (auto elim!: bindE_cases thenE_cases dest!: step_traces
      simp: liftE_eq returnE_eq log_message_trace split: if_splits)

lemma MyoSensor_connect_try_throws:
  assumes "MyoSensor_connect_try w = (Inl e, w1)"
  shows "trace w1 = trace w @
           [Log ''Attempting to connect to Myo...'',
            Call CConnectDefault (Threw e)]
       \<or> trace w1 = trace w @
           [Log ''Attempting to connect to Myo...'',
            Call CConnectDefault Returned,
            Call CConnected (Threw e)]"
  using assms unfolding MyoSensor_connect_try_def
  by (auto elim!: bindE_cases thenE_cases dest!: step_traces
      simp: liftE_eq returnE_eq log_message_trace split: if_splits)

lemma MyoSensor_iteration_cases [consumes 1, case_names breaks falls_through caught]:
  assumes "catchE MyoSensor_connect_try MyoSensor_connect_catch w = (b, w1)"
  obtains "b" "MyoSensor_connect_try w = (Inr True, w1)"
    | "\<not> b" "MyoSensor_connect_try w = (Inr False, w1)"
    | e w0 where "\<not> b" "MyoSensor_connect_try w = (Inl e, w0)"
        "w1 = log_message (''Connection error: '' @ what e) w0"
  using assms
  by (auto simp: catchE_def MyoSensor_connect_catch_def split: prod.splits sum.splits)

lemma MyoSensor_iteration_trace:
  assumes "catchE MyoSensor_connect_try MyoSensor_connect_catch w = (b, w1)"
  shows "\<exists>oc rest. trace w1 = trace w @
            Log ''Attempting to connect to Myo...'' # Call CConnectDefault oc # rest \<and>
           connect_attempts rest = 0 \<and>
           (b \<longrightarrow> rest = [Call CConnected Returned, Log ''Successfully connected to Myo!''])"
  using assms
proof (cases rule: MyoSensor_iteration_cases)
  case breaks
  then show ?thesis
    by (auto dest!: MyoSensor_connect_try_breaks simp: connect_attempts_def)
next
  case falls_through
  then show ?thesis
    by (auto dest!: MyoSensor_connect_try_falls_through simp: connect_attempts_def)
next
  case (caught e w0)
  from MyoSensor_connect_try_throws [OF caught(2)] caught(1,3) show ?thesis
    by (auto simp: log_message_trace connect_attempts_def)
qed

lemma MyoSensor_connect_loop_head_throws:
  "connected w = (Inl e, w1) \<Longrightarrow> MyoSensor_connect_loop n w = ((Inl e, n), w1)"
  by (subst MyoSensor_connect_loop.simps) simp

lemma MyoSensor_connect_loop_connected:
  "connected w = (Inr True, w1) \<Longrightarrow> MyoSensor_connect_loop n w = ((Inr (), n), w1)"
  by (subst MyoSensor_connect_loop.simps) simp

lemma MyoSensor_connect_loop_exhausted:
  "connected w = (Inr False, w1) \<Longrightarrow> \<not> n < main_MAX_RECONNECT_ATTEMPTS \<Longrightarrow>
     MyoSensor_connect_loop n w = ((Inr (), n), w1)"
  by (subst MyoSensor_connect_loop.simps) simp

lemma MyoSensor_connect_loop_stopped:
  "connected w = (Inr False, w1) \<Longrightarrow> n < main_MAX_RECONNECT_ATTEMPTS \<Longrightarrow>
   read_stop w1 = (True, w2) \<Longrightarrow>
     MyoSensor_connect_loop n w = ((Inr (), n), w2)"
  by (subst MyoSensor_connect_loop.simps) simp

lemma MyoSensor_connect_loop_breaks:
  "connected w = (Inr False, w1) \<Longrightarrow> n < main_MAX_RECONNECT_ATTEMPTS \<Longrightarrow>
   read_stop w1 = (False, w2) \<Longrightarrow>
   catchE MyoSensor_connect_try MyoSensor_connect_catch w2 = (True, w3) \<Longrightarrow>
     MyoSensor_connect_loop n w = ((Inr (), n), w3)"
  by (subst MyoSensor_connect_loop.simps) simp

lemma MyoSensor_connect_loop_retries:
  "connected w = (Inr False, w1) \<Longrightarrow> n < main_MAX_RECONNECT_ATTEMPTS \<Longrightarrow>
   read_stop w1 = (False, w2) \<Longrightarrow>
   catchE MyoSensor_connect_try MyoSensor_connect_catch w2 = (False, w3) \<Longrightarrow>
     MyoSensor_connect_loop n w
       = MyoSensor_connect_loop (n + 1)
           (sleep_for main_RECONNECT_DELAY_MS
             (log_message ''Connection failed. Retrying in 5 seconds...'' w3))"
  apply (subst MyoSensor_connect_loop.simps)
  apply (simp only: prod.case sum.case if_False if_True bool.case to_string_main_delay
      not_not simp_thms)
  apply simp
  done

lemma MyoSensor_connect_loop_induct_cases
  [consumes 1, case_names head_throws connected exhausted stopped breaks retries]:
  assumes res: "MyoSensor_connect_loop n w = res"
    and head_throws: "\<And>n w e w1. connected w = (Inl e, w1) \<Longrightarrow> P n w ((Inl e, n), w1)"
    and connected: "\<And>n w w1. connected w = (Inr True, w1) \<Longrightarrow> P n w ((Inr (), n), w1)"
    and exhausted: "\<And>n w w1. connected w = (Inr False, w1) \<Longrightarrow>
          \<not> n < main_MAX_RECONNECT_ATTEMPTS \<Longrightarrow> P n w ((Inr (), n), w1)"
    and stopped: "\<And>n w w1 w2. connected w = (Inr False, w1) \<Longrightarrow>
          n < main_MAX_RECONNECT_ATTEMPTS \<Longrightarrow> read_stop w1 = (True, w2) \<Longrightarrow>
          P n w ((Inr (), n), w2)"
    and breaks: "\<And>n w w1 w2 w3. connected w = (Inr False, w1) \<Longrightarrow>
          n < main_MAX_RECONNECT_ATTEMPTS \<Longrightarrow> read_stop w1 = (False, w2) \<Longrightarrow>
          catchE MyoSensor_connect_try MyoSensor_connect_catch w2 = (True, w3) \<Longrightarrow>
          P n w ((Inr (), n), w3)"
    and retries: "\<And>n w w1 w2 w3 res. connected w = (Inr False, w1) \<Longrightarrow>
          n < main_MAX_RECONNECT_ATTEMPTS \<Longrightarrow> read_stop w1 = (False, w2) \<Longrightarrow>
          catchE MyoSensor_connect_try MyoSensor_connect_catch w2 = (False, w3) \<Longrightarrow>
          P (n + 1) (sleep_for main_RECONNECT_DELAY_MS
                (log_message ''Connection failed. Retrying in 5 seconds...'' w3)) res \<Longrightarrow>
          P n w res"
  shows "P n w res"
  using res
proof (induction "main_MAX_RECONNECT_ATTEMPTS - n" arbitrary: n w res rule: less_induct)
  case less
  obtain r w1 where c: "connected w = (r, w1)" by (cases "connected w") auto
  show ?case
  proof (cases r)
    case (Inl e)
    with c less.prems head_throws [of w e w1 n] show ?thesis
      by (simp add: MyoSensor_connect_loop_head_throws)
  next
    case (Inr b)
    show ?thesis
    proof (cases b)
      case True
      with Inr c less.prems connected [of w w1 n] show ?thesis
        by (simp add: MyoSensor_connect_loop_connected)
    next
      case False
      with Inr c have c': "connected w = (Inr False, w1)" by simp
      show ?thesis
      proof (cases "n < main_MAX_RECONNECT_ATTEMPTS")
        case False
        with c' less.prems exhausted [of w w1 n] show ?thesis
          by (simp add: MyoSensor_connect_loop_exhausted)
      next
        case lt: True
        obtain s w2 where s: "read_stop w1 = (s, w2)" by (cases "read_stop w1") auto
        show ?thesis
        proof (cases s)
          case True
          with s c' lt less.prems stopped [of w w1 n w2] show ?thesis
            by (simp add: MyoSensor_connect_loop_stopped)
        next
          case False
          with s have s': "read_stop w1 = (False, w2)" by simp
          obtain b w3
            where it: "catchE MyoSensor_connect_try MyoSensor_connect_catch w2 = (b, w3)"
            by (cases "catchE MyoSensor_connect_try MyoSensor_connect_catch w2") auto
          show ?thesis
          proof (cases b)
            case True
            with it s' c' lt less.prems breaks [of w w1 n w2 w3] show ?thesis
              by (simp add: MyoSensor_connect_loop_breaks)
          next
            case False
            with it have it': "catchE MyoSensor_connect_try MyoSensor_connect_catch w2
                = (False, w3)" by simp
            let ?w4 = "sleep_for main_RECONNECT_DELAY_MS
                (log_message ''Connection failed. Retrying in 5 seconds...'' w3)"
            have step: "MyoSensor_connect_loop n w = MyoSensor_connect_loop (n + 1) ?w4"
              by (rule MyoSensor_connect_loop_retries [OF c' lt s' it'])
            have "P (n + 1) ?w4 res"
            proof (rule less.hyps)
              show "main_MAX_RECONNECT_ATTEMPTS - (n + 1) < main_MAX_RECONNECT_ATTEMPTS - n"
                using lt by simp
              show "MyoSensor_connect_loop (n + 1) ?w4 = res"
                using step less.prems by simp
            qed
            then show ?thesis by (rule retries [OF c' lt s' it'])
          qed
        qed
      qed
    qed
  qed
qed

lemma MyoSensor_connect_loop_invariant:
  assumes "MyoSensor_connect_loop n w = ((r, n'), w')"
  shows "n \<le> n' \<and> (n \<le> main_MAX_RECONNECT_ATTEMPTS \<longrightarrow> n' \<le> main_MAX_RECONNECT_ATTEMPTS) \<and>
         (\<exists>new. trace w' = trace w @ new \<and>
            (connect_attempts new = n' - n
             \<or> connect_attempts new = n' - n + 1 \<and> n' < main_MAX_RECONNECT_ATTEMPTS
                 \<and> r = Inr ()
                 \<and> last new = Log ''Successfully connected to Myo!''))"
proof -
  define P where "P = (\<lambda>(n::nat) (w::'a world) (res :: ((exception + unit) \<times> nat) \<times> 'a world).
      n \<le> snd (fst res) \<and>
      (n \<le> main_MAX_RECONNECT_ATTEMPTS \<longrightarrow> snd (fst res) \<le> main_MAX_RECONNECT_ATTEMPTS) \<and>
      (\<exists>new. trace (snd res) = trace w @ new \<and>
            (connect_attempts new = snd (fst res) - n
             \<or> connect_attempts new = snd (fst res) - n + 1
                 \<and> snd (fst res) < main_MAX_RECONNECT_ATTEMPTS
                 \<and> fst (fst res) = Inr ()
                 \<and> last new = Log ''Successfully connected to Myo!'')))"
  from assms have "P n w ((r, n'), w')"
  proof (induction rule: MyoSensor_connect_loop_induct_cases)
    case (head_throws n w e w1)
    then show ?case
      by (auto simp: P_def connect_attempts_def dest!: connected_step)
  next
    case (connected n w w1)
    then show ?case
      by (auto simp: P_def connect_attempts_def dest!: connected_step)
  next
    case (exhausted n w w1)
    then show ?case
      by (auto simp: P_def connect_attempts_def dest!: connected_step)
  next
    case (stopped n w w1 w2)
    then show ?case
      by (auto simp: P_def connect_attempts_def read_stop_def split: prod.splits
          dest!: connected_step next_answer_trace)
  next
    case (breaks n w w1 w2 w3)
    from breaks(1) have t1: "trace w1 = trace w @ [Call CConnected Returned]"
      by (auto dest!: connected_step)
    from breaks(3) have t2: "trace w2 = trace w1"
      by (auto simp: read_stop_def split: prod.splits dest!: next_answer_trace)
    from MyoSensor_iteration_trace [OF breaks(4)] obtain oc
      where t3: "trace w3 = trace w2 @ Log ''Attempting to connect to Myo...''
          # Call CConnectDefault oc
          # [Call CConnected Returned, Log ''Successfully connected to Myo!'']"
      by auto
    let ?new = "[Call CConnected Returned, Log ''Attempting to connect to Myo...'',
        Call CConnectDefault oc, Call CConnected Returned,
        Log ''Successfully connected to Myo!'']"
    have "trace w3 = trace w @ ?new" using t1 t2 t3 by simp
    moreover have "connect_attempts ?new = n - n + 1" "last ?new = Log ''Successfully connected to Myo!''"
      by (simp_all add: connect_attempts_def)
    ultimately show ?case using breaks(2) unfolding P_def
      by (intro conjI impI exI [of _ ?new]) simp_all
  next
    case (retries n w w1 w2 w3 res)
    from retries(1) have t1: "trace w1 = trace w @ [Call CConnected Returned]"
      by (auto dest!: connected_step)
    from retries(3) have t2: "trace w2 = trace w1"
      by (auto simp: read_stop_def split: prod.splits dest!: next_answer_trace)
    from MyoSensor_iteration_trace [OF retries(4)] obtain oc rest
      where t3: "trace w3 = trace w2 @ Log ''Attempting to connect to Myo...''
          # Call CConnectDefault oc # rest" and r0: "connect_attempts rest = 0"
      by auto
    let ?w4 = "sleep_for main_RECONNECT_DELAY_MS
                (log_message ''Connection failed. Retrying in 5 seconds...'' w3)"
    let ?it = "[Call CConnected Returned, Log ''Attempting to connect to Myo...'',
        Call CConnectDefault oc] @ rest @ [Log ''Connection failed. Retrying in 5 seconds...'',
        SleepFor main_RECONNECT_DELAY_MS]"
    have t4: "trace ?w4 = trace w @ ?it"
      using t1 t2 t3 by (simp add: sleep_for_trace log_message_trace)
    have c4: "connect_attempts ?it = 1"
      using r0 by (simp add: connect_attempts_def)
    from retries(5) obtain new
      where ih: "n + 1 \<le> snd (fst res)"
        "snd (fst res) \<le> main_MAX_RECONNECT_ATTEMPTS"
        "trace (snd res) = trace ?w4 @ new"
        "connect_attempts new = snd (fst res) - (n + 1)
             \<or> connect_attempts new = snd (fst res) - (n + 1) + 1
                 \<and> snd (fst res) < main_MAX_RECONNECT_ATTEMPTS
                 \<and> fst (fst res) = Inr ()
                 \<and> last new = Log ''Successfully connected to Myo!''"
      using retries(2) unfolding P_def by auto
    have ne: "new \<noteq> []" if "connect_attempts new = snd (fst res) - (n + 1) + 1"
      using that by (auto simp: connect_attempts_def)
    have a: "trace (snd res) = trace w @ (?it @ new)"
      using ih(3) t4 by simp
    have b: "connect_attempts (?it @ new) = connect_attempts ?it + connect_attempts new"
      by (simp add: connect_attempts_def)
    have "connect_attempts (?it @ new) = snd (fst res) - n
             \<or> connect_attempts (?it @ new) = snd (fst res) - n + 1
                 \<and> snd (fst res) < main_MAX_RECONNECT_ATTEMPTS
                 \<and> fst (fst res) = Inr ()
                 \<and> last (?it @ new) = Log ''Successfully connected to Myo!''"
      using ih(1,4) ne unfolding b c4 by auto
    with a ih(1,2) show ?case unfolding P_def
      by (intro conjI impI exI [of _ "?it @ new"]) simp_all
  qed
  then show ?thesis by (simp add: P_def)
qed



















lemma MyoSensor_connect_try_connect_threw:
  assumes "MyoSensor_connect_try w = (r, w1)"
    and "trace w1 = es @ [Call CConnectDefault (Threw e)]"
  shows "r = Inl e"
proof (cases r)
  case (Inl e')
  with assms(1) MyoSensor_connect_try_throws [of w e' w1] assms(2) show ?thesis
    by auto
next
  case (Inr b)
  show ?thesis
  proof (cases b)
    case True
    with Inr assms(1) MyoSensor_connect_try_breaks [of w w1] assms(2) show ?thesis by auto
  next
    case False
    with Inr assms(1) MyoSensor_connect_try_falls_through [of w w1] assms(2) show ?thesis
      by auto
  qed
qed

lemma MyoSensor_connect_loop_trace:
  assumes "MyoSensor_connect_loop n w = (res, w')"
  shows "\<exists>new. trace w' = trace w @ new"
  using MyoSensor_connect_loop_invariant [of n w "fst res" "snd res" w'] assms
  by auto

lemma MyoSensor_connect_loop_catches:
  assumes "m < main_MAX_RECONNECT_ATTEMPTS"
    and "connected v = (Inr False, va)"
    and "read_stop va = (False, vb)"
    and "MyoSensor_connect_try vb = (s, v1)"
    and "trace v1 = fs @ [Call CConnectDefault (Threw e)]"
    and "v4 = sleep_for main_RECONNECT_DELAY_MS
               (log_message ''Connection failed. Retrying in 5 seconds...''
                 (log_message (''Connection error: '' @ what e) v1))"
  shows "s = Inl e \<and>
         catchE MyoSensor_connect_try MyoSensor_connect_catch vb
           = (False, log_message (''Connection error: '' @ what e) v1) \<and>
         MyoSensor_connect_loop m v = MyoSensor_connect_loop (m + 1) v4 \<and>
         (connected v4 = (Inr False, v5) \<and> m + 1 = main_MAX_RECONNECT_ATTEMPTS \<longrightarrow>
            MyoSensor_connect_loop m v = ((Inr (), main_MAX_RECONNECT_ATTEMPTS), v5)) \<and>
         (connected v4 = (Inr False, v5) \<and> m + 1 < main_MAX_RECONNECT_ATTEMPTS \<and>
          read_stop v5 = (False, v6) \<longrightarrow>
            (\<exists>oc rest. trace (snd (MyoSensor_connect_loop m v))
               = trace v6 @ Log ''Attempting to connect to Myo...''
                   # Call CConnectDefault oc # rest)) \<and>
         (connected v4 = (Inr False, v5) \<and> m + 1 < main_MAX_RECONNECT_ATTEMPTS \<and>
          read_stop v5 = (True, v6) \<longrightarrow>
            MyoSensor_connect_loop m v = ((Inr (), m + 1), v6)) \<and>
         (connected v4 = (Inr True, v5) \<longrightarrow>
            MyoSensor_connect_loop m v = ((Inr (), m + 1), v5))"
proof -
  have s: "s = Inl e"
    by (rule MyoSensor_connect_try_connect_threw [OF assms(4,5)])
  with assms(4) have c: "catchE MyoSensor_connect_try MyoSensor_connect_catch vb
           = (False, log_message (''Connection error: '' @ what e) v1)"
    by (simp add: catchE_def MyoSensor_connect_catch_def)
  have step: "MyoSensor_connect_loop m v = MyoSensor_connect_loop (m + 1) v4"
    unfolding assms(6) by (rule MyoSensor_connect_loop_retries [OF assms(2,1,3) c])
  have a: "MyoSensor_connect_loop m v = ((Inr (), main_MAX_RECONNECT_ATTEMPTS), v5)"
    if "connected v4 = (Inr False, v5) \<and> m + 1 = main_MAX_RECONNECT_ATTEMPTS"
    using that step MyoSensor_connect_loop_exhausted [of v4 v5 "m + 1"] by simp
  have b: "\<exists>oc rest. trace (snd (MyoSensor_connect_loop m v))
               = trace v6 @ Log ''Attempting to connect to Myo...''
                   # Call CConnectDefault oc # rest"
    if h: "connected v4 = (Inr False, v5) \<and> m + 1 < main_MAX_RECONNECT_ATTEMPTS \<and>
          read_stop v5 = (False, v6)"
  proof -
    obtain b v7 where it: "catchE MyoSensor_connect_try MyoSensor_connect_catch v6 = (b, v7)"
      by (cases "catchE MyoSensor_connect_try MyoSensor_connect_catch v6") auto
    from MyoSensor_iteration_trace [OF it] obtain oc rest
      where t: "trace v7 = trace v6 @ Log ''Attempting to connect to Myo...''
          # Call CConnectDefault oc # rest" by blast
    show ?thesis
    proof (cases b)
      case True
      with it h have "MyoSensor_connect_loop (m + 1) v4 = ((Inr (), m + 1), v7)"
        by (simp add: MyoSensor_connect_loop_breaks)
      with step t show ?thesis by simp
    next
      case False
      let ?v8 = "sleep_for main_RECONNECT_DELAY_MS
             (log_message ''Connection failed. Retrying in 5 seconds...'' v7)"
      from False it h
      have "MyoSensor_connect_loop (m + 1) v4 = MyoSensor_connect_loop (m + 1 + 1) ?v8"
        by (simp add: MyoSensor_connect_loop_retries)
      with step have e: "MyoSensor_connect_loop m v = MyoSensor_connect_loop (m + 1 + 1) ?v8"
        by simp
      obtain res w' where r: "MyoSensor_connect_loop (m + 1 + 1) ?v8 = (res, w')"
        by (cases "MyoSensor_connect_loop (m + 1 + 1) ?v8") auto
      from MyoSensor_connect_loop_trace [OF r] obtain new
        where "trace w' = trace ?v8 @ new" by blast
      then have "trace w' = trace v6 @ Log ''Attempting to connect to Myo...''
          # Call CConnectDefault oc # (rest @ [Log ''Connection failed. Retrying in 5 seconds...'',
             SleepFor main_RECONNECT_DELAY_MS] @ new)"
        using t by (simp add: sleep_for_trace log_message_trace)
      with e r show ?thesis by (simp del: append.simps)
    qed
  qed
  have d: "MyoSensor_connect_loop m v = ((Inr (), m + 1), v6)"
    if "connected v4 = (Inr False, v5) \<and> m + 1 < main_MAX_RECONNECT_ATTEMPTS \<and>
          read_stop v5 = (True, v6)"
    using that step MyoSensor_connect_loop_stopped [of v4 v5 "m + 1" v6] by simp
  have f: "MyoSensor_connect_loop m v = ((Inr (), m + 1), v5)"
    if "connected v4 = (Inr True, v5)"
    using that step MyoSensor_connect_loop_connected [of v4 v5 "m + 1"] by simp
  from s c step a b d f show ?thesis by blast
qed



lemma reconnect_loop_catches:
  assumes "n < MAX_RECONNECT_ATTEMPTS"
    and "reconnect_try address w = (r, w1)"
    and "trace w1 = es @ [Call (CConnect address connection_timeout) (Threw e)]"
  shows "r = Inl e \<and>
         catchE (reconnect_try address) reconnect_catch w
           = (False, log_message (''Reconnection error: '' @ what e) w1) \<and>
         reconnect_loop address n w
           = reconnect_loop address (n + 1)
               (sleep_for RECONNECT_DELAY_MS
                 (log_message ''Reconnection failed. Trying again in 10 seconds...''
                   (log_message (''Reconnection error: '' @ what e) w1))) \<and>
         (n + 1 = MAX_RECONNECT_ATTEMPTS \<longrightarrow>
            reconnect_loop address n w
              = ((Inl (runtime_error ''Unable to reconnect after 5 attempts.''),
                  MAX_RECONNECT_ATTEMPTS),
                 sleep_for RECONNECT_DELAY_MS
                   (log_message ''Reconnection failed. Trying again in 10 seconds...''
                     (log_message (''Reconnection error: '' @ what e) w1))))"
proof -
  from assms(3) have l: "last (trace w1) = Call (CConnect address connection_timeout) (Threw e)"
    by simp
  have r: "r = Inl e"
    using reconnect_try_result_cases [of r] reconnect_try_last_event [OF assms(2)] l
    by auto
  with assms(2) have c: "catchE (reconnect_try address) reconnect_catch w
      = (False, log_message (''Reconnection error: '' @ what e) w1)"
    by (simp add: catchE_def reconnect_catch_def)
  from reconnect_loop_retries [OF assms(1) c]
  have s: "reconnect_loop address n w
           = reconnect_loop address (n + 1)
               (sleep_for RECONNECT_DELAY_MS
                 (log_message ''Reconnection failed. Trying again in 10 seconds...''
                   (log_message (''Reconnection error: '' @ what e) w1)))" .
  have "reconnect_loop address n w
              = ((Inl (runtime_error ''Unable to reconnect after 5 attempts.''),
                  MAX_RECONNECT_ATTEMPTS),
                 sleep_for RECONNECT_DELAY_MS
                   (log_message ''Reconnection failed. Trying again in 10 seconds...''
                     (log_message (''Reconnection error: '' @ what e) w1)))"
    if "n + 1 = MAX_RECONNECT_ATTEMPTS"
    using s that reconnect_loop_exhausted [of "n + 1" address] by simp
  with r c s show ?thesis by blast
qed

lemma refused_once_steps:
  "connected (refused_once later :: 'f world)
     = (Inr False, (refused_once later)\<lparr>tick := 1, trace := [Call CConnected Returned]\<rparr>)"
  "read_stop ((refused_once later :: 'f world)\<lparr>tick := 1, trace := [Call CConnected Returned]\<rparr>)
     = (False, (refused_once later)\<lparr>tick := 2, trace := [Call CConnected Returned]\<rparr>)"
  "MyoSensor_connect_try
       ((refused_once later :: 'f world)\<lparr>tick := 2, trace := [Call CConnected Returned]\<rparr>)
     = (Inl (runtime_error ''no device''),
        (refused_once later)\<lparr>tick := 3,
           trace := [Call CConnected Returned, Log ''Attempting to connect to Myo...'']
             @ [Call CConnectDefault (Threw (runtime_error ''no device''))]\<rparr>)"
  by (simp_all add: main_defs refused_once_def)


lemma refused_once_sleep:
  "sleep_for main_RECONNECT_DELAY_MS
     (log_message ''Connection failed. Retrying in 5 seconds...''
       (log_message (''Connection error: '' @ what (runtime_error ''no device''))
         ((refused_once (ok # later) :: 'f world)\<lparr>tick := 3,
            trace := [Call CConnected Returned, Log ''Attempting to connect to Myo...'']
              @ [Call CConnectDefault (Threw (runtime_error ''no device''))]\<rparr>)))
     = (refused_once (ok # later))\<lparr>tick := 4, trace := refused_iteration\<rparr>"
  "sleep_for main_RECONNECT_DELAY_MS
     (log_message ''Connection failed. Retrying in 5 seconds...''
       (log_message (''Connection error: '' @ what (runtime_error ''no device''))
         ((refused_once (interrupt # later) :: 'f world)\<lparr>tick := 3,
            trace := [Call CConnected Returned, Log ''Attempting to connect to Myo...'']
              @ [Call CConnectDefault (Threw (runtime_error ''no device''))]\<rparr>)))
     = (refused_once (interrupt # later))\<lparr>tick := 4, stop := True,
          trace := refused_iteration, handler_log := [''Signal well received'']\<rparr>"
  by (simp_all add: main_defs refused_once_def refused_iteration_def)


section \<open>The claims about the reconnection routine\<close>



text \<open>
  Claim C5, at the input where the code departs from it. The claim reads: the stop
  flag is checked at the top of every loop, the retry loop of the reconnection
  controller among them, so that no further reconnection attempt starts once the flag
  is set. The loop of \<^verbatim>\<open>reconnect\<close> does not read the flag: entered with the flag set
  and the device off, it runs all its five iterations, makes five connect attempts and
  leaves the flag as it was.
\<close>

theorem reconnect_ignores_stop_flag:
  "stop (stopped_world :: unit world) \<and>
   connect_attempts (trace (snd (reconnect example_address (stopped_world :: unit world)))) = 5 \<and>
   fst (reconnect example_address (stopped_world :: unit world))
     = Inl (runtime_error ''Unable to reconnect after 5 attempts.'') \<and>
   stop (snd (reconnect example_address (stopped_world :: unit world)))"
  by (simp add: reconnect_def reconnect_device_off)
    (simp add: stopped_world_def initial_world_def failed_iteration_def connect_attempts_def)

text \<open>
  Claim C4. When \<^verbatim>\<open>reconnect\<close> reports success, the events of the run end with a
  connect call that returned, followed by \<^verbatim>\<open>setSleepMode(NeverSleep)\<close> and
  \<^verbatim>\<open>setMode(SendEmg, SendData, Disabled)\<close>, both returned, and the line that reports
  the success; so every connect attempt of the run is followed by the configuration
  before the success is reported.
\<close>

theorem reconnect_success_reapplies_configuration:
  assumes "reconnect address w = (Inr (), w')"
  shows "\<exists>new. trace w' = trace w @ new \<and>
           (\<exists>pre. new = pre @
              [Call CConnected Returned,
               Log ''Trying to reconnect even though we're connected ...'',
               Call (CConnect address connection_timeout) Returned,
               Call (CSetSleepMode NeverSleep) Returned,
               Call (CSetMode SendEmg SendData Disabled) Returned,
               Log ''Reconnection successful!'']) \<and>
           (\<forall>i < length new. is_connect (new ! i) \<longrightarrow>
              (\<exists>j k. i < j \<and> j < k \<and> k < length new \<and>
                 new ! j = Call (CSetSleepMode NeverSleep) Returned \<and>
                 new ! k = Call (CSetMode SendEmg SendData Disabled) Returned))"
proof -
  let ?suffix = "[Call CConnected Returned,
               Log ''Trying to reconnect even though we're connected ...'',
               Call (CConnect address connection_timeout) Returned,
               Call (CSetSleepMode NeverSleep) Returned,
               Call (CSetMode SendEmg SendData Disabled) Returned,
               Log ''Reconnection successful!'']"
  obtain n where "reconnect_loop address 0 w = ((Inr (), n), w')"
    using assms by (auto simp: reconnect_def split: prod.splits)
  from reconnect_loop_success_suffix [OF this] obtain pre
    where t: "trace w' = trace w @ pre @ ?suffix" by blast
  let ?new = "pre @ ?suffix"
  have "\<exists>j k. i < j \<and> j < k \<and> k < length ?new \<and>
          ?new ! j = Call (CSetSleepMode NeverSleep) Returned \<and>
          ?new ! k = Call (CSetMode SendEmg SendData Disabled) Returned"
    if i: "i < length ?new" "is_connect (?new ! i)" for i
  proof -
    have "i \<le> length pre + 2"
    proof (rule ccontr)
      assume "\<not> i \<le> length pre + 2"
      with i(1) have "i = length pre + 3 \<or> i = length pre + 4 \<or> i = length pre + 5"
        by auto
      with i(2) show False
        by (auto simp: nth_append)
    qed
    then have "i < length pre + 3" by simp
    moreover have "?new ! (length pre + 3) = Call (CSetSleepMode NeverSleep) Returned"
      by (simp add: nth_append)
    moreover have "?new ! (length pre + 4) = Call (CSetMode SendEmg SendData Disabled) Returned"
      by (simp add: nth_append)
    moreover have "length pre + 3 < length pre + 4" "length pre + 4 < length ?new" by simp_all
    ultimately show ?thesis by blast
  qed
  with t show ?thesis by (intro exI [of _ ?new]) blast
qed



theorem reconnect_success_reapplies_configuration_witness:
  "reconnect example_address (initial_world (script [ok, ok, ok, ok] ok) :: unit world)
     = (Inr (),
        (initial_world (script [ok, ok, ok, ok] ok))\<lparr>tick := 4,
          trace := [Call CConnected Returned,
               Log ''Trying to reconnect even though we're connected ...'',
               Call (CConnect example_address connection_timeout) Returned,
               Call (CSetSleepMode NeverSleep) Returned,
               Call (CSetMode SendEmg SendData Disabled) Returned,
               Log ''Reconnection successful!'']\<rparr>) \<and>
   (\<exists>new. trace ((initial_world (script [ok, ok, ok, ok] ok) :: unit world)\<lparr>tick := 4,
          trace := [Call CConnected Returned,
               Log ''Trying to reconnect even though we're connected ...'',
               Call (CConnect example_address connection_timeout) Returned,
               Call (CSetSleepMode NeverSleep) Returned,
               Call (CSetMode SendEmg SendData Disabled) Returned,
               Log ''Reconnection successful!'']\<rparr>)
        = trace (initial_world (script [ok, ok, ok, ok] ok) :: unit world) @ new \<and>
      (\<exists>j k. j < k \<and> k < length new \<and> is_connect (new ! 2) \<and> 2 < j \<and>
             new ! j = Call (CSetSleepMode NeverSleep) Returned \<and>
             new ! k = Call (CSetMode SendEmg SendData Disabled) Returned))"
proof -
  let ?w = "initial_world (script [ok, ok, ok, ok] ok) :: unit world"
  let ?es = "[Call CConnected Returned,
               Log ''Trying to reconnect even though we're connected ...'',
               Call (CConnect example_address connection_timeout) Returned,
               Call (CSetSleepMode NeverSleep) Returned,
               Call (CSetMode SendEmg SendData Disabled) Returned,
               Log ''Reconnection successful!'']"
  have run: "reconnect example_address ?w = (Inr (), ?w\<lparr>tick := 4, trace := ?es\<rparr>)"
    by (simp add: eval_defs reconnect_loop.simps)
  from reconnect_success_reapplies_configuration [OF run] obtain new
    where new: "trace (?w\<lparr>tick := 4, trace := ?es\<rparr>) = trace ?w @ new"
      and cfg: "\<forall>i < length new. is_connect (new ! i) \<longrightarrow>
              (\<exists>j k. i < j \<and> j < k \<and> k < length new \<and>
                 new ! j = Call (CSetSleepMode NeverSleep) Returned \<and>
                 new ! k = Call (CSetMode SendEmg SendData Disabled) Returned)"
    by blast
  from new have n: "new = ?es" by (simp add: initial_world_def)
  then have "2 < length new" "is_connect (new ! 2)" by simp_all
  with cfg obtain j k where "2 < j" "j < k" "k < length new"
    "new ! j = Call (CSetSleepMode NeverSleep) Returned"
    "new ! k = Call (CSetMode SendEmg SendData Disabled) Returned"
    by blast
  with \<open>is_connect (new ! 2)\<close> new run show ?thesis by blast
qed

text \<open>
  Claim C8, as the code has it. The claim reads: an exception of the connect call in the
  retry loop is caught and logged, counts as one failed attempt, and never aborts the
  loop, which proceeds to its next iteration unless the maximum is reached.

  In the loop of \<^verbatim>\<open>reconnect\<close> (\<^verbatim>\<open>MyoLinux/src/main.cpp\<close>): when the \<^verbatim>\<open>try\<close> block ends
  in a connect call that throws \<open>e\<close>, the exception is the one the \<^verbatim>\<open>catch\<close> clause
  receives and logs; the iteration counts as one failed attempt and the loop goes on
  from its head with the counter one higher, where it ends with the terminal error
  only when the counter has reached the maximum.

  In the retry loop of \<^verbatim>\<open>MyoSensor/main.cpp\<close>: when an iteration is entered (the session
  not connected, the counter below 5, the \<^verbatim>\<open>stop\<close> flag read clear) and its connect call
  throws \<open>x\<close>, the exception is caught and logged, the iteration counts as one failed
  attempt, and the loop goes on from its head with the counter one higher. There a
  further attempt is made when the session answers that it is not connected, the counter
  is below 5 and the flag is read clear; the loop ends with no further attempt when the
  counter has reached 5, when the flag is read set, or when the session answers that it
  is connected.
\<close>

theorem reconnect_catches_connect_exception:
  "(n < MAX_RECONNECT_ATTEMPTS \<and> reconnect_try address w = (r, w1) \<and>
    trace w1 = es @ [Call (CConnect address connection_timeout) (Threw e)] \<longrightarrow>
      r = Inl e \<and>
      catchE (reconnect_try address) reconnect_catch w
        = (False, log_message (''Reconnection error: '' @ what e) w1) \<and>
      reconnect_loop address n w
        = reconnect_loop address (n + 1)
            (sleep_for RECONNECT_DELAY_MS
              (log_message ''Reconnection failed. Trying again in 10 seconds...''
                (log_message (''Reconnection error: '' @ what e) w1))) \<and>
      (n + 1 = MAX_RECONNECT_ATTEMPTS \<longrightarrow>
         reconnect_loop address n w
           = ((Inl (runtime_error ''Unable to reconnect after 5 attempts.''),
               MAX_RECONNECT_ATTEMPTS),
              sleep_for RECONNECT_DELAY_MS
                (log_message ''Reconnection failed. Trying again in 10 seconds...''
                  (log_message (''Reconnection error: '' @ what e) w1))))) \<and>
   (m < main_MAX_RECONNECT_ATTEMPTS \<and> connected v = (Inr False, va) \<and>
    read_stop va = (False, vb) \<and> MyoSensor_connect_try vb = (s, v1) \<and>
    trace v1 = fs @ [Call CConnectDefault (Threw x)] \<and>
    v4 = sleep_for main_RECONNECT_DELAY_MS
           (log_message ''Connection failed. Retrying in 5 seconds...''
             (log_message (''Connection error: '' @ what x) v1)) \<longrightarrow>
      s = Inl x \<and>
      catchE MyoSensor_connect_try MyoSensor_connect_catch vb
        = (False, log_message (''Connection error: '' @ what x) v1) \<and>
      MyoSensor_connect_loop m v = MyoSensor_connect_loop (m + 1) v4 \<and>
      (connected v4 = (Inr False, v5) \<and> m + 1 = main_MAX_RECONNECT_ATTEMPTS \<longrightarrow>
         MyoSensor_connect_loop m v = ((Inr (), main_MAX_RECONNECT_ATTEMPTS), v5)) \<and>
      (connected v4 = (Inr False, v5) \<and> m + 1 < main_MAX_RECONNECT_ATTEMPTS \<and>
       read_stop v5 = (False, v6) \<longrightarrow>
         (\<exists>oc rest. trace (snd (MyoSensor_connect_loop m v))
            = trace v6 @ Log ''Attempting to connect to Myo...''
                # Call CConnectDefault oc # rest)) \<and>
      (connected v4 = (Inr False, v5) \<and> m + 1 < main_MAX_RECONNECT_ATTEMPTS \<and>
       read_stop v5 = (True, v6) \<longrightarrow>
         MyoSensor_connect_loop m v = ((Inr (), m + 1), v6)) \<and>
      (connected v4 = (Inr True, v5) \<longrightarrow>
         MyoSensor_connect_loop m v = ((Inr (), m + 1), v5)))"
  using reconnect_loop_catches [of n address w r w1 es e]
    MyoSensor_connect_loop_catches [of m v va vb s v1 fs x v4 v5 v6]
  by blast

theorem reconnect_catches_connect_exception_witness:
  "4 < MAX_RECONNECT_ATTEMPTS \<and>
   reconnect_try example_address (initial_world (script device_off ok) :: int world)
     = (Inl (runtime_error ''no device''),
        (initial_world (script device_off ok))\<lparr>tick := 5,
           trace := [Call CConnected Returned, Log ''Attempting to reconnect...'',
             Call CConnected Returned, Log ''0'', Call CDisconnect Returned, SleepFor 1000]
             @ [Call (CConnect example_address connection_timeout)
                  (Threw (runtime_error ''no device''))]\<rparr>) \<and>
   reconnect_loop example_address 4 (initial_world (script device_off ok) :: int world)
     = ((Inl (runtime_error ''Unable to reconnect after 5 attempts.''), MAX_RECONNECT_ATTEMPTS),
        sleep_for RECONNECT_DELAY_MS
          (log_message ''Reconnection failed. Trying again in 10 seconds...''
            (log_message (''Reconnection error: '' @ what (runtime_error ''no device''))
              ((initial_world (script device_off ok))\<lparr>tick := 5,
                 trace := [Call CConnected Returned, Log ''Attempting to reconnect...'',
                   Call CConnected Returned, Log ''0'', Call CDisconnect Returned, SleepFor 1000]
                   @ [Call (CConnect example_address connection_timeout)
                        (Threw (runtime_error ''no device''))]\<rparr>)))) \<and>
   4 < main_MAX_RECONNECT_ATTEMPTS \<and>
   connected (refused_once [ok, no] :: int world)
     = (Inr False, (refused_once [ok, no])\<lparr>tick := 1, trace := [Call CConnected Returned]\<rparr>) \<and>
   read_stop ((refused_once [ok, no] :: int world)\<lparr>tick := 1, trace := [Call CConnected Returned]\<rparr>)
     = (False, (refused_once [ok, no])\<lparr>tick := 2, trace := [Call CConnected Returned]\<rparr>) \<and>
   MyoSensor_connect_try
       ((refused_once [ok, no] :: int world)\<lparr>tick := 2, trace := [Call CConnected Returned]\<rparr>)
     = (Inl (runtime_error ''no device''),
        (refused_once [ok, no])\<lparr>tick := 3,
           trace := [Call CConnected Returned, Log ''Attempting to connect to Myo...'']
             @ [Call CConnectDefault (Threw (runtime_error ''no device''))]\<rparr>) \<and>
   connected ((refused_once [ok, no] :: int world)\<lparr>tick := 4, trace := refused_iteration\<rparr>)
     = (Inr False,
        (refused_once [ok, no])\<lparr>tick := 5,
           trace := refused_iteration @ [Call CConnected Returned]\<rparr>) \<and>
   MyoSensor_connect_loop 4 (refused_once [ok, no] :: int world)
     = ((Inr (), main_MAX_RECONNECT_ATTEMPTS),
        (refused_once [ok, no])\<lparr>tick := 5,
           trace := refused_iteration @ [Call CConnected Returned]\<rparr>) \<and>
   read_stop ((refused_once [interrupt, no, ok] :: int world)\<lparr>tick := 5, stop := True,
          trace := refused_iteration @ [Call CConnected Returned],
          handler_log := [''Signal well received'']\<rparr>)
     = (True, (refused_once [interrupt, no, ok])\<lparr>tick := 6, stop := True,
          trace := refused_iteration @ [Call CConnected Returned],
          handler_log := [''Signal well received'']\<rparr>) \<and>
   MyoSensor_connect_loop 0 (refused_once [interrupt, no, ok] :: int world)
     = ((Inr (), 0 + 1),
        (refused_once [interrupt, no, ok])\<lparr>tick := 6, stop := True,
          trace := refused_iteration @ [Call CConnected Returned],
          handler_log := [''Signal well received'']\<rparr>) \<and>
   read_stop ((refused_once [ok, no, ok] :: int world)\<lparr>tick := 5,
          trace := refused_iteration @ [Call CConnected Returned]\<rparr>)
     = (False, (refused_once [ok, no, ok])\<lparr>tick := 6,
          trace := refused_iteration @ [Call CConnected Returned]\<rparr>) \<and>
   (\<exists>oc rest. trace (snd (MyoSensor_connect_loop 0 (refused_once [ok, no, ok] :: int world)))
      = trace ((refused_once [ok, no, ok] :: int world)\<lparr>tick := 6,
          trace := refused_iteration @ [Call CConnected Returned]\<rparr>)
        @ Log ''Attempting to connect to Myo...'' # Call CConnectDefault oc # rest) \<and>
   connected ((refused_once [ok, ok] :: int world)\<lparr>tick := 4, trace := refused_iteration\<rparr>)
     = (Inr True,
        (refused_once [ok, ok])\<lparr>tick := 5,
           trace := refused_iteration @ [Call CConnected Returned]\<rparr>) \<and>
   MyoSensor_connect_loop 0 (refused_once [ok, ok] :: int world)
     = ((Inr (), 0 + 1),
        (refused_once [ok, ok])\<lparr>tick := 5,
           trace := refused_iteration @ [Call CConnected Returned]\<rparr>)"
proof -
  let ?w = "initial_world (script device_off ok) :: int world"
  let ?es = "[Call CConnected Returned, Log ''Attempting to reconnect...'',
             Call CConnected Returned, Log ''0'', Call CDisconnect Returned, SleepFor 1000]"
  let ?w1 = "?w\<lparr>tick := 5,
           trace := ?es @ [Call (CConnect example_address connection_timeout)
                  (Threw (runtime_error ''no device''))]\<rparr>"
  have lt: "4 < MAX_RECONNECT_ATTEMPTS" by (simp add: MAX_RECONNECT_ATTEMPTS_def)
  have run: "reconnect_try example_address ?w = (Inl (runtime_error ''no device''), ?w1)"
    by (simp add: eval_defs)
  have tr: "trace ?w1 = ?es @ [Call (CConnect example_address connection_timeout)
                  (Threw (runtime_error ''no device''))]"
    by simp
  have mx: "4 + 1 = MAX_RECONNECT_ATTEMPTS" by (simp add: MAX_RECONNECT_ATTEMPTS_def)
  have R: "reconnect_loop example_address 4 ?w
     = ((Inl (runtime_error ''Unable to reconnect after 5 attempts.''), MAX_RECONNECT_ATTEMPTS),
        sleep_for RECONNECT_DELAY_MS
          (log_message ''Reconnection failed. Trying again in 10 seconds...''
            (log_message (''Reconnection error: '' @ what (runtime_error ''no device'')) ?w1)))"
    using reconnect_catches_connect_exception [where n = 4 and address = example_address and w = ?w
        and r = "Inl (runtime_error ''no device'')" and ?w1.0 = ?w1 and es = ?es
        and e = "runtime_error ''no device''"] lt run tr mx
    by blast
  have lm: "4 < main_MAX_RECONNECT_ATTEMPTS" "0 < main_MAX_RECONNECT_ATTEMPTS"
    "4 + 1 = main_MAX_RECONNECT_ATTEMPTS" "0 + 1 < main_MAX_RECONNECT_ATTEMPTS"
    by (simp_all add: main_MAX_RECONNECT_ATTEMPTS_def)
  have hyps: "m < main_MAX_RECONNECT_ATTEMPTS \<Longrightarrow>
      m < main_MAX_RECONNECT_ATTEMPTS \<and>
      connected (refused_once (a # later) :: int world)
        = (Inr False, (refused_once (a # later))\<lparr>tick := 1, trace := [Call CConnected Returned]\<rparr>) \<and>
      read_stop ((refused_once (a # later) :: int world)\<lparr>tick := 1,
          trace := [Call CConnected Returned]\<rparr>)
        = (False, (refused_once (a # later))\<lparr>tick := 2, trace := [Call CConnected Returned]\<rparr>) \<and>
      MyoSensor_connect_try
          ((refused_once (a # later) :: int world)\<lparr>tick := 2, trace := [Call CConnected Returned]\<rparr>)
        = (Inl (runtime_error ''no device''),
           (refused_once (a # later))\<lparr>tick := 3,
              trace := [Call CConnected Returned, Log ''Attempting to connect to Myo...'']
                @ [Call CConnectDefault (Threw (runtime_error ''no device''))]\<rparr>) \<and>
      trace ((refused_once (a # later) :: int world)\<lparr>tick := 3,
              trace := [Call CConnected Returned, Log ''Attempting to connect to Myo...'']
                @ [Call CConnectDefault (Threw (runtime_error ''no device''))]\<rparr>)
        = [Call CConnected Returned, Log ''Attempting to connect to Myo...'']
                @ [Call CConnectDefault (Threw (runtime_error ''no device''))] \<and>
      sleep_for main_RECONNECT_DELAY_MS
         (log_message ''Connection failed. Retrying in 5 seconds...''
           (log_message (''Connection error: '' @ what (runtime_error ''no device''))
             ((refused_once (a # later) :: int world)\<lparr>tick := 3,
                trace := [Call CConnected Returned, Log ''Attempting to connect to Myo...'']
                  @ [Call CConnectDefault (Threw (runtime_error ''no device''))]\<rparr>)))
        = sleep_for main_RECONNECT_DELAY_MS
         (log_message ''Connection failed. Retrying in 5 seconds...''
           (log_message (''Connection error: '' @ what (runtime_error ''no device''))
             ((refused_once (a # later) :: int world)\<lparr>tick := 3,
                trace := [Call CConnected Returned, Log ''Attempting to connect to Myo...'']
                  @ [Call CConnectDefault (Threw (runtime_error ''no device''))]\<rparr>)))"
    for m a and later :: "int answer list"
    using refused_once_steps [where ?'f = int, of "a # later"]
    by (intro conjI) simp_all
  let ?a = "refused_once [ok, no] :: int world"
  let ?a5 = "?a\<lparr>tick := 5, trace := refused_iteration @ [Call CConnected Returned]\<rparr>"
  have a4: "connected (?a\<lparr>tick := 4, trace := refused_iteration\<rparr>) = (Inr False, ?a5)"
    by (simp add: main_defs refused_once_def refused_iteration_def)
  have A: "MyoSensor_connect_loop 4 ?a = ((Inr (), main_MAX_RECONNECT_ATTEMPTS), ?a5)"
    apply (rule reconnect_catches_connect_exception [THEN conjunct2, THEN mp, THEN conjunct2, THEN conjunct2, THEN conjunct2,
          THEN conjunct1, THEN mp])
     apply (rule hyps [OF lm(1)])
    apply (unfold refused_once_sleep)
    apply (intro conjI a4 lm(3))
    done
  let ?b = "refused_once [interrupt, no, ok] :: int world"
  let ?b4 = "?b\<lparr>tick := 4, stop := True,
          trace := refused_iteration, handler_log := [''Signal well received'']\<rparr>"
  let ?b5 = "?b\<lparr>tick := 5, stop := True,
          trace := refused_iteration @ [Call CConnected Returned],
          handler_log := [''Signal well received'']\<rparr>"
  let ?b6 = "?b\<lparr>tick := 6, stop := True,
          trace := refused_iteration @ [Call CConnected Returned],
          handler_log := [''Signal well received'']\<rparr>"
  have b4: "connected ?b4 = (Inr False, ?b5)"
    by (simp add: main_defs refused_once_def refused_iteration_def)
  have b5: "read_stop ?b5 = (True, ?b6)"
    by (simp add: main_defs refused_once_def refused_iteration_def)
  have B: "MyoSensor_connect_loop 0 ?b = ((Inr (), 0 + 1), ?b6)"
    apply (rule reconnect_catches_connect_exception [THEN conjunct2, THEN mp, THEN conjunct2, THEN conjunct2, THEN conjunct2,
          THEN conjunct2, THEN conjunct2, THEN conjunct1, THEN mp])
     apply (rule hyps [OF lm(2)])
    apply (unfold refused_once_sleep)
    apply (rule conjI, rule b4, rule conjI, rule lm(4), rule b5)
    done
  let ?c = "refused_once [ok, no, ok] :: int world"
  let ?c5 = "?c\<lparr>tick := 5, trace := refused_iteration @ [Call CConnected Returned]\<rparr>"
  let ?c6 = "?c\<lparr>tick := 6, trace := refused_iteration @ [Call CConnected Returned]\<rparr>"
  have c4: "connected (?c\<lparr>tick := 4, trace := refused_iteration\<rparr>) = (Inr False, ?c5)"
    by (simp add: main_defs refused_once_def refused_iteration_def)
  have c5: "read_stop ?c5 = (False, ?c6)"
    by (simp add: main_defs refused_once_def refused_iteration_def)
  have C: "\<exists>oc rest. trace (snd (MyoSensor_connect_loop 0 ?c))
      = trace ?c6 @ Log ''Attempting to connect to Myo...'' # Call CConnectDefault oc # rest"
    apply (rule reconnect_catches_connect_exception [THEN conjunct2, THEN mp, THEN conjunct2, THEN conjunct2, THEN conjunct2,
          THEN conjunct2, THEN conjunct1, THEN mp])
     apply (rule hyps [OF lm(2)])
    apply (unfold refused_once_sleep)
    apply (rule conjI, rule c4, rule conjI, rule lm(4), rule c5)
    done
  let ?d = "refused_once [ok, ok] :: int world"
  let ?d5 = "?d\<lparr>tick := 5, trace := refused_iteration @ [Call CConnected Returned]\<rparr>"
  have d4: "connected (?d\<lparr>tick := 4, trace := refused_iteration\<rparr>) = (Inr True, ?d5)"
    by (simp add: main_defs refused_once_def refused_iteration_def)
  have D: "MyoSensor_connect_loop 0 ?d = ((Inr (), 0 + 1), ?d5)"
    apply (rule reconnect_catches_connect_exception [THEN conjunct2, THEN mp, THEN conjunct2, THEN conjunct2, THEN conjunct2,
          THEN conjunct2, THEN conjunct2, THEN conjunct2, THEN mp])
     apply (rule hyps [OF lm(2)])
    apply (unfold refused_once_sleep)
    apply (rule d4)
    done
  from lt run R lm(1) refused_once_steps [where ?'f = int, of "[ok, no]"] a4 A b5 B c5 C d4 D
  show ?thesis by (intro conjI)
qed

text \<open>
  The claim as stated fails on the retry loop of \<^verbatim>\<open>MyoSensor/main.cpp\<close>: the first
  connect call throws, the exception is caught and counted, and the interrupt signal
  arrives during the sleep that follows. At the loop head the flag is read set and the
  loop ends after one attempt, the counter at 1, below the maximum.
\<close>

theorem MyoSensor_retry_loop_ends_on_stop_counterexample:
  "MyoSensor_connect_loop 0 (refused_once [interrupt, no, ok] :: int world)
     = ((Inr (), 1),
        (refused_once [interrupt, no, ok])\<lparr>tick := 6, stop := True,
           trace := refused_iteration @ [Call CConnected Returned],
           handler_log := [''Signal well received'']\<rparr>) \<and>
   (1::nat) < main_MAX_RECONNECT_ATTEMPTS \<and>
   connect_attempts (refused_iteration @ [Call CConnected Returned]) = 1"
  by (simp add: main_defs refused_once_def refused_iteration_def connect_attempts_def)

text \<open>
  Claim C10. In an iteration of the loop of \<^verbatim>\<open>reconnect\<close> whose \<^verbatim>\<open>try\<close> block ends in
  a connect call that returned, the session had answered that it was not connected, the
  block does not return from the function, and the iteration is counted and delayed
  like a failed one; at the fifth iteration the terminal error is thrown although the
  connect call returned. The function returns only from a \<^verbatim>\<open>try\<close> block that found the
  session connected and called connect once more.
\<close>

theorem reconnect_connect_success_counts_as_failure:
  assumes "n < MAX_RECONNECT_ATTEMPTS"
    and "reconnect_try address w = (r, w1)"
    and "trace w1 = es @ [Call (CConnect address connection_timeout) Returned]"
  shows "r = Inr False \<and>
         (\<exists>c. c \<in> {''0'', ''1''} \<and>
            trace w1 = trace w @
              [Call CConnected Returned,
               Log ''Attempting to reconnect...'',
               Call CConnected Returned,
               Log c,
               Call CDisconnect Returned,
               SleepFor 1000,
               Call (CConnect address connection_timeout) Returned]) \<and>
         reconnect_loop address n w
           = reconnect_loop address (n + 1)
               (sleep_for RECONNECT_DELAY_MS
                 (log_message ''Reconnection failed. Trying again in 10 seconds...'' w1)) \<and>
         (n + 1 = MAX_RECONNECT_ATTEMPTS \<longrightarrow>
            reconnect_loop address n w
              = ((Inl (runtime_error ''Unable to reconnect after 5 attempts.''),
                  MAX_RECONNECT_ATTEMPTS),
                 sleep_for RECONNECT_DELAY_MS
                   (log_message ''Reconnection failed. Trying again in 10 seconds...'' w1))) \<and>
         (\<forall>v v1. reconnect_try address v = (Inr True, v1) \<longrightarrow>
            trace v1 = trace v @
              [Call CConnected Returned,
               Log ''Trying to reconnect even though we're connected ...'',
               Call (CConnect address connection_timeout) Returned,
               Call (CSetSleepMode NeverSleep) Returned,
               Call (CSetMode SendEmg SendData Disabled) Returned,
               Log ''Reconnection successful!''])"
proof -
  from assms(3) have l: "last (trace w1) = Call (CConnect address connection_timeout) Returned"
    by simp
  have r: "r = Inr False"
    using reconnect_try_result_cases [of r] reconnect_try_last_event [OF assms(2)] l
    by auto
  with assms(2) have c: "catchE (reconnect_try address) reconnect_catch w = (False, w1)"
    by (simp add: catchE_def)
  from reconnect_loop_retries [OF assms(1) c]
  have s: "reconnect_loop address n w
           = reconnect_loop address (n + 1)
               (sleep_for RECONNECT_DELAY_MS
                 (log_message ''Reconnection failed. Trying again in 10 seconds...'' w1))" .
  have x: "reconnect_loop address n w
              = ((Inl (runtime_error ''Unable to reconnect after 5 attempts.''),
                  MAX_RECONNECT_ATTEMPTS),
                 sleep_for RECONNECT_DELAY_MS
                   (log_message ''Reconnection failed. Trying again in 10 seconds...'' w1))"
    if "n + 1 = MAX_RECONNECT_ATTEMPTS"
    using s that reconnect_loop_exhausted [of "n + 1" address] by simp
  from assms(2) r reconnect_try_falls_through [of address w w1]
  have t: "\<exists>c. c \<in> {''0'', ''1''} \<and>
            trace w1 = trace w @
              [Call CConnected Returned,
               Log ''Attempting to reconnect...'',
               Call CConnected Returned,
               Log c,
               Call CDisconnect Returned,
               SleepFor 1000,
               Call (CConnect address connection_timeout) Returned]"
    by auto
  from r t s x reconnect_try_returns [of address] show ?thesis by blast
qed

theorem reconnect_connect_success_counts_as_failure_witness:
  "4 < MAX_RECONNECT_ATTEMPTS \<and>
   reconnect_try example_address (initial_world (script [no, no, ok, ok, ok] ok) :: unit world)
     = (Inr False,
        (initial_world (script [no, no, ok, ok, ok] ok))\<lparr>tick := 5,
           trace := [Call CConnected Returned, Log ''Attempting to reconnect...'',
             Call CConnected Returned, Log ''0'', Call CDisconnect Returned, SleepFor 1000]
             @ [Call (CConnect example_address connection_timeout) Returned]\<rparr>) \<and>
   reconnect_loop example_address 4 (initial_world (script [no, no, ok, ok, ok] ok) :: unit world)
     = ((Inl (runtime_error ''Unable to reconnect after 5 attempts.''), MAX_RECONNECT_ATTEMPTS),
        sleep_for RECONNECT_DELAY_MS
          (log_message ''Reconnection failed. Trying again in 10 seconds...''
              ((initial_world (script [no, no, ok, ok, ok] ok))\<lparr>tick := 5,
                 trace := [Call CConnected Returned, Log ''Attempting to reconnect...'',
                   Call CConnected Returned, Log ''0'', Call CDisconnect Returned, SleepFor 1000]
                   @ [Call (CConnect example_address connection_timeout) Returned]\<rparr>)))"
proof -
  let ?w = "initial_world (script [no, no, ok, ok, ok] ok) :: unit world"
  let ?es = "[Call CConnected Returned, Log ''Attempting to reconnect...'',
             Call CConnected Returned, Log ''0'', Call CDisconnect Returned, SleepFor 1000]"
  let ?w1 = "?w\<lparr>tick := 5,
           trace := ?es @ [Call (CConnect example_address connection_timeout) Returned]\<rparr>"
  have lt: "4 < MAX_RECONNECT_ATTEMPTS" by (simp add: MAX_RECONNECT_ATTEMPTS_def)
  have run: "reconnect_try example_address ?w = (Inr False, ?w1)"
    by (simp add: eval_defs)
  have tr: "trace ?w1 = ?es @ [Call (CConnect example_address connection_timeout) Returned]"
    by simp
  have "4 + 1 = MAX_RECONNECT_ATTEMPTS" by (simp add: MAX_RECONNECT_ATTEMPTS_def)
  with reconnect_connect_success_counts_as_failure [OF lt run tr] lt run show ?thesis
    by blast
qed


section \<open>The claim about the address parser\<close>

text \<open>
  Claim C6, at the inputs where the code departs from it. The claim reads: every string
  of six colon-separated hexadecimal octets parses to its six bytes, and every malformed
  string (wrong number of octets, characters that are no hexadecimal digits) fails, and
  the program exits with status 1. \<^verbatim>\<open>parse_mac_address\<close> throws on a string with fewer
  than six fields and on a field \<^verbatim>\<open>std::stoi\<close> refuses, and \<^verbatim>\<open>main\<close> then exits with
  status 1 (lemma \<open>parse_mac_address_six_fields\<close>), but the check is incomplete: the loop
  reads six fields and never looks at the rest of the stream, and \<^verbatim>\<open>std::stoi\<close> converts
  the leading digits of a field and ignores what follows them. A string of seven octets,
  any string that goes on after a sixth field, and a string with the field \<^verbatim>\<open>0g\<close> parse
  without error; given the seven octets the program does not exit with status 1 but
  goes on and calls \<^verbatim>\<open>connect\<close> with the first six.
\<close>

theorem parse_mac_address_accepts_malformed:
  "length (colon_split ''00:11:22:33:44:55:66'') = 7 \<and>
   parse_mac_address ''00:11:22:33:44:55:66'' = Inr [0x00, 0x11, 0x22, 0x33, 0x44, 0x55] \<and>
   parse_mac_address (''00:11:22:33:44:55:'' @ later) = Inr [0x00, 0x11, 0x22, 0x33, 0x44, 0x55] \<and>
   \<not> is_hex CHR ''g'' \<and>
   parse_mac_address ''0g:11:22:33:44:55'' = Inr [0x00, 0x11, 0x22, 0x33, 0x44, 0x55] \<and>
   MyoLinux_main (Suc (Suc 0)) example_platform [''prog'', ''out'', ''00:11:22:33:44:55:66'']
       (initial_world (script accepted_then_interrupted ok))
     = Some (Exit 0,
         (initial_world (script accepted_then_interrupted ok))
           \<lparr>tick := 10, stop := True, on_sigint := Handler_MyoLinux,
            trace :=
              [Log ''Starting Myo data collection application'',
               FsExists ''out'',
               Call CConnected Returned,
               Log ''Attempting to connect to Myo...'',
               Call (CConnect [0x00, 0x11, 0x22, 0x33, 0x44, 0x55] 30) Returned,
               Call CConnected Returned,
               Log ''Connection failed. Retrying in 5 seconds...'',
               SleepFor 5000,
               Log ''Disconnecting...'',
               Call CDisconnect Returned,
               Log ''Program ended normally.''],
            watchdog := \<lparr>timeout = 60, last_activity = 0\<rparr>\<rparr>)"
proof (intro conjI)
  show "length (colon_split ''00:11:22:33:44:55:66'') = 7"
    by (simp add: colon_split_examples)
  show "parse_mac_address ''00:11:22:33:44:55:66'' = Inr [0x00, 0x11, 0x22, 0x33, 0x44, 0x55]"
    by (simp add: parse_examples)
  show "parse_mac_address (''00:11:22:33:44:55:'' @ later)
      = Inr [0x00, 0x11, 0x22, 0x33, 0x44, 0x55]"
    by (rule parse_ignores_later_fields)
  show "\<not> is_hex CHR ''g''"
    by (simp add: is_hex_def)
  show "parse_mac_address ''0g:11:22:33:44:55'' = Inr [0x00, 0x11, 0x22, 0x33, 0x44, 0x55]"
    by (simp add: parse_examples)
  show "MyoLinux_main (Suc (Suc 0)) example_platform [''prog'', ''out'', ''00:11:22:33:44:55:66'']
       (initial_world (script accepted_then_interrupted ok))
     = Some (Exit 0,
         (initial_world (script accepted_then_interrupted ok))
           \<lparr>tick := 10, stop := True, on_sigint := Handler_MyoLinux,
            trace :=
              [Log ''Starting Myo data collection application'',
               FsExists ''out'',
               Call CConnected Returned,
               Log ''Attempting to connect to Myo...'',
               Call (CConnect [0x00, 0x11, 0x22, 0x33, 0x44, 0x55] 30) Returned,
               Call CConnected Returned,
               Log ''Connection failed. Retrying in 5 seconds...'',
               SleepFor 5000,
               Log ''Disconnecting...'',
               Call CDisconnect Returned,
               Log ''Program ended normally.''],
            watchdog := \<lparr>timeout = 60, last_activity = 0\<rparr>\<rparr>)"
    by (simp add: main_defs MyoLinux_main_def MyoLinux_try_def MyoLinux_shutdown_def
        parse_examples accepted_then_interrupted_def connection_timeout_def)
qed

section \<open>The claims about the two programs\<close>

text \<open>
  Claim C7, at the inputs where the code departs from it. The claim reads: once the
  stop flag is observed the session is disconnected one last time, an error of that
  disconnect is logged and not propagated, and the process ends with status 0.
  \<^verbatim>\<open>MyoLinux/src/main.cpp\<close> does so. In \<^verbatim>\<open>MyoSensor/main.cpp\<close> the retry loop that
  observes the flag while the device is off is followed by \<^verbatim>\<open>return 1\<close>, with no
  disconnect; and the last disconnect is in no \<^verbatim>\<open>try\<close>, so that its exception leaves
  \<^verbatim>\<open>main\<close> and the process ends by \<^verbatim>\<open>std::terminate\<close>.
\<close>

theorem MyoSensor_main_after_interrupt:
  "MyoSensor_main (Suc 0) example_platform [''prog'', ''out'']
      (initial_world (script interrupted_while_off ok))
     = Some (Exit 1,
         (initial_world (script interrupted_while_off ok))
           \<lparr>tick := 11, stop := True, on_sigint := Handler_MyoSensor,
            trace :=
              [Log ''Starting Myo data collection application'',
               FsExists ''out'',
               Call CConnected Returned,
               Log ''Attempting to connect to Myo...'',
               Call CConnectDefault (Threw (runtime_error ''no device'')),
               Log ''Connection error: no device'',
               Log ''Connection failed. Retrying in 5 seconds...'',
               SleepFor 5000,
               Call CConnected Returned,
               Call CConnected Returned,
               Log ''Failed to connect to Myo after 5 attempts. Exiting.''],
            handler_log := [''Signal well received''],
            watchdog := \<lparr>timeout = 60, last_activity = 0\<rparr>\<rparr>) \<and>
   MyoSensor_main (Suc (Suc 0)) example_platform [''prog'', ''out'']
      (initial_world (script interrupted_then_disconnect_throws ok))
     = Some (Terminate (runtime_error ''port closed''),
         (initial_world (script interrupted_then_disconnect_throws ok))
           \<lparr>tick := 18, stop := True, on_sigint := Handler_MyoSensor,
            trace :=
              [Log ''Starting Myo data collection application'',
               FsExists ''out'',
               Call CConnected Returned,
               Call CConnected Returned,
               FileOpen ''out/myo_data_0.csv'' True,
               Call (CSetSleepMode NeverSleep) Returned,
               Call (CSetMode SendEmg SendData Disabled) Returned,
               Call COnEmg Returned,
               Call COnImu Returned,
               Log ''Starting data collection loop'',
               Call CConnected Returned,
               FileClose ''out/myo_data_0.csv'',
               Call CConnected Returned,
               Call CDisconnect (Threw (runtime_error ''port closed''))],
            handler_log := [''Signal well received''],
            files := (\<lambda>name. None)(''out/myo_data_0.csv'' \<mapsto> csv_header),
            watchdog := \<lparr>timeout = 60, last_activity = 0\<rparr>\<rparr>)"
  by (simp add: main_defs interrupted_while_off_def interrupted_then_disconnect_throws_def)

text \<open>
  Claim C2, as the code has it. The claim reads: when the five attempts are exhausted
  the failure goes to the supervisor, which logs it and goes on with its outer loop, and
  the process never exits on exhaustion. This is what \<^verbatim>\<open>MyoLinux/src/main.cpp\<close> does:
  the exception \<^verbatim>\<open>reconnect\<close> throws is the terminal error, the \<^verbatim>\<open>catch\<close> around it
  logs it, and the outer loop goes on to its next iteration. In \<^verbatim>\<open>MyoSensor/main.cpp\<close>
  the retry loop is part of \<^verbatim>\<open>main\<close>: when it is left with the counter at the maximum
  and the session not connected, the program logs that it failed to connect and
  returns 1.
\<close>

theorem exhaustion_in_the_two_programs:
  "(read_stop w = (False, w1) \<and>
    MyoLinux_try fuel pl output_directory mac_address_str address w1 = Some (Inl err, w2) \<and>
    reconnect address
      (sleep_for 30000
        (log_message ''Attempting to reconnect in 30 seconds...''
          (log_message (''Error: '' @ what err) w2))) = (Inl e, w3) \<longrightarrow>
      e = runtime_error ''Unable to reconnect after 5 attempts.'' \<and>
      MyoLinux_catch address err w2
        = log_message ''Reconnection failed: Unable to reconnect after 5 attempts.'' w3 \<and>
      MyoLinux_loop (Suc fuel) pl output_directory mac_address_str address w
        = MyoLinux_loop fuel pl output_directory mac_address_str address
            (log_message ''Reconnection failed: Unable to reconnect after 5 attempts.'' w3)) \<and>
   (read_stop v = (False, v1) \<and>
    MyoSensor_connect_loop 0 v1 = ((Inr (), main_MAX_RECONNECT_ATTEMPTS), v2) \<and>
    connected v2 = (Inr False, v3) \<longrightarrow>
      MyoSensor_loop (Suc fuel) pl output_directory v
        = Some (Exit 1,
            log_message ''Failed to connect to Myo after 5 attempts. Exiting.'' v3))"
proof (intro conjI impI)
  assume a: "read_stop w = (False, w1) \<and>
    MyoLinux_try fuel pl output_directory mac_address_str address w1 = Some (Inl err, w2) \<and>
    reconnect address
      (sleep_for 30000
        (log_message ''Attempting to reconnect in 30 seconds...''
          (log_message (''Error: '' @ what err) w2))) = (Inl e, w3)"
  then show e: "e = runtime_error ''Unable to reconnect after 5 attempts.''"
    using reconnect_throws_exhaustion by blast
  from a e show c: "MyoLinux_catch address err w2
        = log_message ''Reconnection failed: Unable to reconnect after 5 attempts.'' w3"
    by (simp add: MyoLinux_catch_def)
  from a have "MyoLinux_loop (Suc fuel) pl output_directory mac_address_str address w
           = MyoLinux_loop fuel pl output_directory mac_address_str address
               (MyoLinux_catch address err w2)"
    using MyoLinux_loop_caught by blast
  with c show "MyoLinux_loop (Suc fuel) pl output_directory mac_address_str address w
        = MyoLinux_loop fuel pl output_directory mac_address_str address
            (log_message ''Reconnection failed: Unable to reconnect after 5 attempts.'' w3)"
    by simp
next
  assume "read_stop v = (False, v1) \<and>
    MyoSensor_connect_loop 0 v1 = ((Inr (), main_MAX_RECONNECT_ATTEMPTS), v2) \<and>
    connected v2 = (Inr False, v3)"
  then show "MyoSensor_loop (Suc fuel) pl output_directory v
        = Some (Exit 1,
            log_message ''Failed to connect to Myo after 5 attempts. Exiting.'' v3)"
    using MyoSensor_loop_gives_up by blast
qed



theorem exhaustion_in_the_two_programs_witness:
  "read_stop (port_closed_world :: int world) = (False, port_closed_world\<lparr>tick := 1\<rparr>) \<and>
   MyoLinux_try 0 example_platform ''out'' ''00:11:22:33:44:55'' example_address
       (port_closed_world\<lparr>tick := 1\<rparr>)
     = Some (Inl (runtime_error ''port closed''),
         port_closed_world\<lparr>tick := 2,
           trace := [Call CConnected (Threw (runtime_error ''port closed''))]\<rparr>) \<and>
   fst (reconnect example_address
     (sleep_for 30000
        (log_message ''Attempting to reconnect in 30 seconds...''
          (log_message (''Error: '' @ what (runtime_error ''port closed''))
            ((port_closed_world :: int world)\<lparr>tick := 2,
               trace := [Call CConnected (Threw (runtime_error ''port closed''))]\<rparr>)))))
     = Inl (runtime_error ''Unable to reconnect after 5 attempts.'') \<and>
   MyoLinux_loop (Suc 0) example_platform ''out'' ''00:11:22:33:44:55'' example_address
       port_closed_world
     = MyoLinux_loop 0 example_platform ''out'' ''00:11:22:33:44:55'' example_address
         (log_message ''Reconnection failed: Unable to reconnect after 5 attempts.''
           (snd (reconnect example_address
             (sleep_for 30000
               (log_message ''Attempting to reconnect in 30 seconds...''
                 (log_message (''Error: '' @ what (runtime_error ''port closed''))
                   (port_closed_world\<lparr>tick := 2,
                      trace := [Call CConnected (Threw (runtime_error ''port closed''))]\<rparr>))))))) \<and>
   read_stop (initial_world (script (ok # refusals) ok) :: int world)
     = (False, (initial_world (script (ok # refusals) ok))\<lparr>tick := 1\<rparr>) \<and>
   MyoSensor_connect_loop 0 ((initial_world (script (ok # refusals) ok) :: int world)\<lparr>tick := 1\<rparr>)
     = ((Inr (), main_MAX_RECONNECT_ATTEMPTS),
        (initial_world (script (ok # refusals) ok))\<lparr>tick := 22,
           trace := refused_iteration @ refused_iteration @ refused_iteration
             @ refused_iteration @ refused_iteration @ [Call CConnected Returned]\<rparr>) \<and>
   connected ((initial_world (script (ok # refusals) ok) :: int world)\<lparr>tick := 22,
           trace := refused_iteration @ refused_iteration @ refused_iteration
             @ refused_iteration @ refused_iteration @ [Call CConnected Returned]\<rparr>)
     = (Inr False,
        (initial_world (script (ok # refusals) ok))\<lparr>tick := 23,
           trace := refused_iteration @ refused_iteration @ refused_iteration
             @ refused_iteration @ refused_iteration
             @ [Call CConnected Returned, Call CConnected Returned]\<rparr>) \<and>
   MyoSensor_loop (Suc 0) example_platform ''out''
       (initial_world (script (ok # refusals) ok) :: int world)
     = Some (Exit 1,
         log_message ''Failed to connect to Myo after 5 attempts. Exiting.''
           ((initial_world (script (ok # refusals) ok))\<lparr>tick := 23,
              trace := refused_iteration @ refused_iteration @ refused_iteration
                @ refused_iteration @ refused_iteration
                @ [Call CConnected Returned, Call CConnected Returned]\<rparr>))"
proof -
  let ?w = "port_closed_world :: int world"
  let ?w2 = "?w\<lparr>tick := 2, trace := [Call CConnected (Threw (runtime_error ''port closed''))]\<rparr>"
  let ?pre = "sleep_for 30000
        (log_message ''Attempting to reconnect in 30 seconds...''
          (log_message (''Error: '' @ what (runtime_error ''port closed'')) ?w2))"
  let ?v = "initial_world (script (ok # refusals) ok) :: int world"
  let ?t = "refused_iteration @ refused_iteration @ refused_iteration
             @ refused_iteration @ refused_iteration"
  let ?v2 = "?v\<lparr>tick := 22, trace := ?t @ [Call CConnected Returned]\<rparr>"
  let ?v3 = "?v\<lparr>tick := 23, trace := ?t @ [Call CConnected Returned, Call CConnected Returned]\<rparr>"
  have a1: "read_stop ?w = (False, ?w\<lparr>tick := 1\<rparr>)"
    by (simp add: main_defs port_closed_world_def)
  have a2: "MyoLinux_try 0 example_platform ''out'' ''00:11:22:33:44:55'' example_address
       (?w\<lparr>tick := 1\<rparr>) = Some (Inl (runtime_error ''port closed''), ?w2)"
    by (simp add: main_defs port_closed_world_def MyoLinux_try_def)
  have a3: "fst (reconnect example_address ?pre)
      = Inl (runtime_error ''Unable to reconnect after 5 attempts.'')"
    by (simp add: eval_defs port_closed_world_def reconnect_loop.simps)
  then have a3': "reconnect example_address ?pre
      = (Inl (runtime_error ''Unable to reconnect after 5 attempts.''),
         snd (reconnect example_address ?pre))"
    by (simp add: prod_eq_iff)
  have b1: "read_stop ?v = (False, ?v\<lparr>tick := 1\<rparr>)"
    by (simp add: main_defs)
  have b2: "MyoSensor_connect_loop 0 (?v\<lparr>tick := 1\<rparr>)
      = ((Inr (), main_MAX_RECONNECT_ATTEMPTS), ?v2)"
    by (simp add: main_defs refusals_def refused_iteration_def)
  have b3: "connected ?v2 = (Inr False, ?v3)"
    by (simp add: main_defs refusals_def refused_iteration_def)
  show ?thesis
    using exhaustion_in_the_two_programs
      [where w = ?w and ?w1.0 = "?w\<lparr>tick := 1\<rparr>" and fuel = 0 and pl = example_platform
        and output_directory = "''out''" and mac_address_str = "''00:11:22:33:44:55''"
        and address = example_address and err = "runtime_error ''port closed''"
        and ?w2.0 = ?w2 and e = "runtime_error ''Unable to reconnect after 5 attempts.''"
        and ?w3.0 = "snd (reconnect example_address ?pre)"
        and v = ?v and ?v1.0 = "?v\<lparr>tick := 1\<rparr>" and ?v2.0 = ?v2 and ?v3.0 = ?v3]
      a1 a2 a3 a3' b1 b2 b3
    by (simp del: MyoLinux_loop.simps MyoSensor_loop.simps)
qed

text \<open>
  The claim as stated fails on \<^verbatim>\<open>MyoSensor/main.cpp\<close>: with a device that never
  connects, the program makes its five attempts, logs that it failed and exits with
  status 1.
\<close>

theorem MyoSensor_main_exits_on_exhaustion_counterexample:
  "MyoSensor_main (Suc 0) example_platform [''prog'', ''out'']
      (initial_world (script never_connects ok))
     = Some (Exit 1,
         (initial_world (script never_connects ok))
           \<lparr>tick := 26, on_sigint := Handler_MyoSensor,
            trace :=
              [Log ''Starting Myo data collection application'', FsExists ''out'']
              @ refused_iteration @ refused_iteration @ refused_iteration
              @ refused_iteration @ refused_iteration
              @ [Call CConnected Returned,
                 Call CConnected Returned,
                 Log ''Failed to connect to Myo after 5 attempts. Exiting.''],
            watchdog := \<lparr>timeout = 60, last_activity = 0\<rparr>\<rparr>)"
  by (simp add: main_defs never_connects_def refusals_def refused_iteration_def)

end
